theory Spec2Isabelle
  imports Complex_Main "HOL-Library.Sublist"
begin

section \<open>The ATS scoring engine of CareerPath-AI (utils/ats\_scorer.py)\<close>

text \<open>
  The theory embeds the class \<open>ATSScorer\<close>: its constant tables, the four analysers,
  \<open>calculate_ats_score\<close> and \<open>calculate_job_match\<close>.

  Modelling conventions.
  \<^item> A Python \<open>str\<close> is a \<open>string\<close>, a list of 8-bit characters. The character classes
    (\<open>\w\<close>, \<open>\s\<close>, \<open>\d\<close>, \<open>[A-Z]\<close>, \<open>[a-z]\<close>) and \<open>str.lower\<close> are the ASCII ones; a
    character above 127 belongs to no class and has no case. The model is exact on ASCII
    text.
  \<^item> A Python \<open>float\<close> is a rational number: the arithmetic of the scores is exact.
    \<open>round(x)\<close> and \<open>round(x, 1)\<close> round half to even, as Python does.
  \<^item> A division whose denominator is not a literal raises \<open>ZeroDivisionError\<close> on
    zero (\<open>py_div\<close>), and a dictionary read raises \<open>KeyError\<close> on a missing key; the
    functions that contain one return \<open>py_error + result\<close>.
  \<^item> A Python \<open>set\<close> of strings is a duplicate-free list in first-seen order; Python
    leaves the iteration order of a set open.
\<close>

subsection \<open>Python primitives\<close>

datatype py_error = ZeroDivisionError | KeyError

definition py_div :: "rat \<Rightarrow> rat \<Rightarrow> py_error + rat" where
  "py_div a b = (if b = 0 then Inl ZeroDivisionError else Inr (a / b))"

text \<open>\<open>round(x)\<close>: the nearest integer, a tie goes to the even one.\<close>

definition py_round :: "rat \<Rightarrow> int" where
  "py_round x =
     (let f = \<lfloor>x\<rfloor>; d = x - of_int f
      in if d < 1 / 2 then f
         else if 1 / 2 < d then f + 1
         else if even f then f else f + 1)"

text \<open>\<open>round(x, 1)\<close>: one decimal.\<close>

definition py_round1 :: "rat \<Rightarrow> rat" where
  "py_round1 x = of_int (py_round (x * 10)) / 10"

definition upper_letters :: string where
  "upper_letters = ''ABCDEFGHIJKLMNOPQRSTUVWXYZ''"

definition lower_letters :: string where
  "lower_letters = ''abcdefghijklmnopqrstuvwxyz''"

definition digit_chars :: string where
  "digit_chars = ''0123456789''"

definition is_upper :: "char \<Rightarrow> bool" where
  "is_upper c = List.member upper_letters c"

definition is_lower :: "char \<Rightarrow> bool" where
  "is_lower c = List.member lower_letters c"

definition is_digit :: "char \<Rightarrow> bool" where
  "is_digit c = List.member digit_chars c"

text \<open>\<open>\w\<close>: letters, digits and the underscore.\<close>

definition is_word :: "char \<Rightarrow> bool" where
  "is_word c = (is_lower c \<or> is_upper c \<or> is_digit c \<or> c = CHR ''_'')"

text \<open>
  \<open>\s\<close> and the separators of \<open>str.split()\<close>: tab, line feed, vertical tab, form feed,
  carriage return, the four separators 0x1C to 0x1F, and the space.
\<close>

definition is_space :: "char \<Rightarrow> bool" where
  "is_space c = List.member
     [CHR 0x09, CHR 0x0A, CHR 0x0B, CHR 0x0C, CHR 0x0D,
      CHR 0x1C, CHR 0x1D, CHR 0x1E, CHR 0x1F, CHR 0x20] c"

definition lower_char :: "char \<Rightarrow> char" where
  "lower_char c = (case map_of (zip upper_letters lower_letters) c of
                     Some l \<Rightarrow> l | None \<Rightarrow> c)"

definition upper_char :: "char \<Rightarrow> char" where
  "upper_char c = (case map_of (zip lower_letters upper_letters) c of
                     Some u \<Rightarrow> u | None \<Rightarrow> c)"

text \<open>\<open>s.lower()\<close>\<close>

definition lower :: "string \<Rightarrow> string" where
  "lower s = map lower_char s"

text \<open>\<open>s.title()\<close>: a letter after a letter is lowered, any other letter is raised.\<close>

fun title_from :: "bool \<Rightarrow> string \<Rightarrow> string" where
  "title_from prev [] = []"
| "title_from prev (c # cs) =
     (if is_lower c \<or> is_upper c
      then (if prev then lower_char c else upper_char c) # title_from True cs
      else c # title_from False cs)"

definition title :: "string \<Rightarrow> string" where
  "title s = title_from False s"

text \<open>\<open>s.replace(a, b)\<close> for a single character \<open>a\<close>.\<close>

definition replace_char :: "char \<Rightarrow> char \<Rightarrow> string \<Rightarrow> string" where
  "replace_char a b s = map (\<lambda>c. if c = a then b else c) s"

text \<open>\<open>s.split()\<close>: the maximal runs of characters that are not white space.\<close>

fun split_acc :: "string \<Rightarrow> string \<Rightarrow> string list" where
  "split_acc w [] = (if w = [] then [] else [w])"
| "split_acc w (c # cs) =
     (if is_space c then (if w = [] then split_acc [] cs else w # split_acc [] cs)
      else split_acc (w @ [c]) cs)"

definition split :: "string \<Rightarrow> string list" where
  "split s = split_acc [] s"

text \<open>\<open>w in s\<close> on strings: \<open>w\<close> occurs in \<open>s\<close> as a contiguous block.\<close>

fun starts_with :: "string \<Rightarrow> string \<Rightarrow> bool" where
  "starts_with [] s = True"
| "starts_with (x # xs) [] = False"
| "starts_with (x # xs) (c # cs) = (x = c \<and> starts_with xs cs)"

fun str_in :: "string \<Rightarrow> string \<Rightarrow> bool" where
  "str_in w [] = (w = [])"
| "str_in w (c # cs) = (starts_with w (c # cs) \<or> str_in w cs)"

text \<open>The decimal digits of a number, as an f-string prints it.\<close>

fun show_nat :: "nat \<Rightarrow> string" where
  "show_nat n =
     (if n < 10 then [digit_chars ! n]
      else show_nat (n div 10) @ [digit_chars ! (n mod 10)])"

text \<open>\<open>set(xs)\<close> as a list: every element once, in the order of its first occurrence.\<close>

fun py_set :: "'a list \<Rightarrow> 'a list" where
  "py_set [] = []"
| "py_set (x # xs) = x # filter (\<lambda>y. y \<noteq> x) (py_set xs)"

subsection \<open>The regular expressions of the module \<open>re\<close>\<close>

text \<open>
  The patterns of the scorer use literals, character classes, greedy repetition of a
  class (\<open>c*\<close>, \<open>c+\<close>, \<open>c{n,}\<close>), the greedy option \<open>r?\<close>, alternation, sequence and the
  word boundary \<open>\b\<close>.
\<close>

datatype regex =
    Lit string
  | Cls "char \<Rightarrow> bool"
  | Rep "char \<Rightarrow> bool" nat
  | Opt regex
  | Alt regex regex
  | Seq regex regex
  | Bnd

text \<open>
  A cursor is a position in the subject: the character before it, if any, and the text
  from it on.
\<close>

type_synonym cursor = "char option \<times> string"

text \<open>Under \<open>re.IGNORECASE\<close> a character matches in either case.\<close>

definition chr_eq :: "bool \<Rightarrow> char \<Rightarrow> char \<Rightarrow> bool" where
  "chr_eq ic x c = (x = c \<or> (ic \<and> lower_char x = lower_char c))"

definition cls_ok :: "bool \<Rightarrow> (char \<Rightarrow> bool) \<Rightarrow> char \<Rightarrow> bool" where
  "cls_ok ic P c = (P c \<or> (ic \<and> (P (lower_char c) \<or> P (upper_char c))))"

fun lit_match :: "bool \<Rightarrow> string \<Rightarrow> char option \<Rightarrow> string \<Rightarrow> cursor option" where
  "lit_match ic [] p s = Some (p, s)"
| "lit_match ic (x # xs) p [] = None"
| "lit_match ic (x # xs) p (c # cs) =
     (if chr_eq ic x c then lit_match ic xs (Some c) cs else None)"

text \<open>The cursors after a run of class characters, the longest run first.\<close>

fun run_states :: "bool \<Rightarrow> (char \<Rightarrow> bool) \<Rightarrow> char option \<Rightarrow> string \<Rightarrow> cursor list" where
  "run_states ic P p [] = [(p, [])]"
| "run_states ic P p (c # cs) =
     (if cls_ok ic P c then run_states ic P (Some c) cs @ [(p, c # cs)]
      else [(p, c # cs)])"

definition at_boundary :: "cursor \<Rightarrow> bool" where
  "at_boundary cur =
     (let word_before = (case fst cur of None \<Rightarrow> False | Some c \<Rightarrow> is_word c);
          word_after = (case snd cur of [] \<Rightarrow> False | c # cs \<Rightarrow> is_word c)
      in word_before \<noteq> word_after)"

text \<open>
  \<open>ends ic r cur\<close>: the cursors at which a match of \<open>r\<close> that starts at \<open>cur\<close> can end, in
  the order in which the backtracking matcher tries them. The head is the match Python
  reports.
\<close>

fun ends :: "bool \<Rightarrow> regex \<Rightarrow> cursor \<Rightarrow> cursor list" where
  "ends ic (Lit w) cur =
     (case lit_match ic w (fst cur) (snd cur) of None \<Rightarrow> [] | Some e \<Rightarrow> [e])"
| "ends ic (Cls P) cur =
     (case snd cur of [] \<Rightarrow> []
      | c # cs \<Rightarrow> if cls_ok ic P c then [(Some c, cs)] else [])"
| "ends ic (Rep P n) cur =
     (let l = run_states ic P (fst cur) (snd cur) in take (length l - n) l)"
| "ends ic (Opt r) cur = ends ic r cur @ [cur]"
| "ends ic (Alt r1 r2) cur = ends ic r1 cur @ ends ic r2 cur"
| "ends ic (Seq r1 r2) cur = concat (map (ends ic r2) (ends ic r1 cur))"
| "ends ic Bnd cur = (if at_boundary cur then [cur] else [])"

text \<open>\<open>re.search(r, s)\<close> as a truth value: some position of \<open>s\<close> starts a match.\<close>

fun search_from :: "bool \<Rightarrow> regex \<Rightarrow> char option \<Rightarrow> string \<Rightarrow> bool" where
  "search_from ic r p [] = (ends ic r (p, []) \<noteq> [])"
| "search_from ic r p (c # cs) =
     (ends ic r (p, c # cs) \<noteq> [] \<or> search_from ic r (Some c) cs)"

definition re_search :: "bool \<Rightarrow> regex \<Rightarrow> string \<Rightarrow> bool" where
  "re_search ic r s = search_from ic r None s"

text \<open>
  \<open>re.findall(r, s)\<close> for a pattern without groups: the matched texts, left to right,
  without overlap. After a match the scan goes on where the match ended; where nothing
  matches, or the match is empty, it moves one character on.
\<close>

function findall_from :: "bool \<Rightarrow> regex \<Rightarrow> char option \<Rightarrow> string \<Rightarrow> string list" where
  "findall_from ic r p s =
     (case ends ic r (p, s) of
        [] \<Rightarrow> (case s of [] \<Rightarrow> [] | c # cs \<Rightarrow> findall_from ic r (Some c) cs)
      | e # _ \<Rightarrow>
          if length (snd e) < length s
          then take (length s - length (snd e)) s # findall_from ic r (fst e) (snd e)
          else [] # (case s of [] \<Rightarrow> [] | c # cs \<Rightarrow> findall_from ic r (Some c) cs))"
  by pat_completeness auto
termination
  by (relation "measure (\<lambda>(ic, r, p, s). length s)") auto

definition re_findall :: "bool \<Rightarrow> regex \<Rightarrow> string \<Rightarrow> string list" where
  "re_findall ic r s = findall_from ic r None s"

text \<open>A sequence and an alternation of several patterns.\<close>

fun seqs :: "regex list \<Rightarrow> regex" where
  "seqs [] = Lit []"
| "seqs [r] = r"
| "seqs (r # rs) = Seq r (seqs rs)"

fun alts :: "regex list \<Rightarrow> regex" where
  "alts [] = Cls (\<lambda>c. False)"
| "alts [r] = r"
| "alts (r # rs) = Alt r (alts rs)"

subsection \<open>The constant tables of \<open>ATSScorer\<close>\<close>

definition ACTION_VERBS :: "string list" where
  "ACTION_VERBS =
     [''achieved'', ''accomplished'', ''administered'', ''analyzed'', ''built'',
      ''collaborated'', ''contributed'', ''coordinated'', ''created'', ''delivered'',
      ''designed'', ''developed'', ''directed'', ''enhanced'', ''established'',
      ''executed'', ''generated'', ''implemented'', ''improved'', ''increased'',
      ''initiated'', ''launched'', ''led'', ''managed'', ''optimized'', ''organized'',
      ''oversaw'', ''planned'', ''produced'', ''reduced'', ''resolved'',
      ''streamlined'', ''supervised'', ''trained'', ''transformed'']"

definition IMPORTANT_SECTIONS :: "string list" where
  "IMPORTANT_SECTIONS =
     [''experience'', ''education'', ''skills'', ''summary'', ''objective'']"

text \<open>\<open>.\<close> matches every character but the line feed.\<close>

definition dot :: "char \<Rightarrow> bool" where
  "dot c = (c \<noteq> CHR 0x0A)"

text \<open>The punctuation that the pattern \<open>special_chars\<close> lets pass.\<close>

definition plain_punctuation :: string where
  "plain_punctuation = ''.,;:-()@/'' @ [CHR 0x27, CHR 0x22] @ ''!?#&*+=''"

definition special_char :: "char \<Rightarrow> bool" where
  "special_char c = (\<not> (is_word c \<or> is_space c \<or> List.member plain_punctuation c))"

text \<open>
  \<open>FORMATTING_ISSUES\<close>, in the order of the dictionary: the name, the pattern and the
  penalty value of each issue.
\<close>

definition tables_pattern :: regex where
  "tables_pattern = seqs [Lit ''|'', Rep dot 0, Lit ''|'', Rep dot 0, Lit ''|'']"

definition special_chars_pattern :: regex where
  "special_chars_pattern = Cls special_char"

definition excessive_caps_pattern :: regex where
  "excessive_caps_pattern = Rep is_upper 10"

definition FORMATTING_ISSUES :: "(string \<times> regex \<times> int) list" where
  "FORMATTING_ISSUES =
     [(''tables'', tables_pattern, - 5),
      (''special_chars'', special_chars_pattern, - 2),
      (''excessive_caps'', excessive_caps_pattern, - 3)]"

subsection \<open>\<open>calculate_keyword_score\<close>\<close>

record keyword_details =
  action_verbs_found :: "string list"
  action_verbs_missing :: "string list"
  keyword_density :: rat
  kd_matched_keywords :: "string list"
  kd_missing_keywords :: "string list"

text \<open>\<open>r'\b' + verb + r'\b'\<close>\<close>

definition verb_pattern :: "string \<Rightarrow> regex" where
  "verb_pattern verb = seqs [Bnd, Lit verb, Bnd]"

text \<open>The loop over \<open>ACTION_VERBS\<close>: each verb is appended to one of the two lists.\<close>

fun check_action_verbs :: "string \<Rightarrow> string list \<Rightarrow> keyword_details \<Rightarrow> keyword_details" where
  "check_action_verbs resume_lower [] details = details"
| "check_action_verbs resume_lower (verb # verbs) details =
     check_action_verbs resume_lower verbs
       (if re_search False (verb_pattern verb) resume_lower
        then details\<lparr>action_verbs_found := action_verbs_found details @ [verb]\<rparr>
        else details\<lparr>action_verbs_missing := action_verbs_missing details @ [verb]\<rparr>)"

text \<open>The stop words of \<open>calculate_keyword_score\<close>.\<close>

definition common_words :: "string list" where
  "common_words =
     [''the'', ''a'', ''an'', ''and'', ''or'', ''but'', ''in'', ''on'', ''at'', ''to'',
      ''for'', ''of'', ''with'', ''by'', ''is'', ''are'', ''was'', ''were'', ''be'',
      ''been'', ''being'', ''have'', ''has'', ''had'', ''do'', ''does'', ''did'',
      ''will'', ''would'', ''could'', ''should'', ''may'', ''might'', ''must'',
      ''shall'', ''can'', ''need'', ''dare'', ''ought'', ''used'', ''this'', ''that'',
      ''these'', ''those'', ''we'', ''you'', ''they'', ''it'', ''i'', ''he'', ''she'',
      ''who'', ''what'', ''which'', ''when'', ''where'', ''why'', ''how'', ''all'',
      ''each'', ''every'', ''both'', ''few'', ''more'', ''most'', ''other'', ''some'',
      ''such'', ''no'', ''nor'', ''not'', ''only'', ''own'', ''same'', ''so'', ''than'',
      ''too'', ''very'', ''just'', ''also'', ''as'', ''if'', ''then'', ''because'',
      ''while'', ''although'', ''though'', ''after'', ''before'', ''since'', ''until'',
      ''unless'', ''about'', ''above'', ''across'', ''against'', ''along'', ''among'',
      ''around'', ''behind'', ''below'', ''beneath'', ''beside'', ''between'',
      ''beyond'', ''during'', ''except'', ''inside'', ''into'', ''near'', ''off'',
      ''onto'', ''out'', ''outside'', ''over'', ''past'', ''through'', ''throughout'',
      ''toward'', ''under'', ''underneath'', ''up'', ''upon'', ''within'', ''without'']"

text \<open>\<open>r'\b[a-z]{3,}\b'\<close>\<close>

definition word3 :: regex where
  "word3 = seqs [Bnd, Rep is_lower 3, Bnd]"

text \<open>\<open>if job_description:\<close> holds for a description that is given and not empty.\<close>

definition truthy :: "string option \<Rightarrow> bool" where
  "truthy job_description =
     (case job_description of None \<Rightarrow> False | Some jd \<Rightarrow> jd \<noteq> [])"

text \<open>
  The branch on the job description: the score of the match and the details with the
  matched and missing keywords.
\<close>

definition match_job_description ::
  "string \<Rightarrow> string option \<Rightarrow> keyword_details \<Rightarrow> py_error + (rat \<times> keyword_details)" where
  "match_job_description resume_lower job_description details =
     (if truthy job_description then
        (let jd_lower = lower (case job_description of None \<Rightarrow> [] | Some jd \<Rightarrow> jd);
             jd_words = filter (\<lambda>w. \<not> List.member common_words w)
                          (py_set (re_findall False word3 jd_lower));
             resume_words = py_set (re_findall False word3 resume_lower);
             matched = filter (\<lambda>w. List.member resume_words w) jd_words;
             missing = filter (\<lambda>w. \<not> List.member resume_words w) jd_words;
             details' = details\<lparr>kd_matched_keywords := take 20 matched,
                                kd_missing_keywords := take 20 missing\<rparr>
         in if jd_words \<noteq> [] then
              (case py_div (of_nat (length matched)) (of_nat (length jd_words)) of
                 Inl e \<Rightarrow> Inl e
               | Inr q \<Rightarrow> Inr (q * 25, details'))
            else Inr (0, details'))
      else Inr (15, details))"

text \<open>The keyword density: the share of the words longer than five characters.\<close>

definition density :: "string \<Rightarrow> keyword_details \<Rightarrow> py_error + keyword_details" where
  "density resume_text details =
     (let words = split resume_text
      in if words \<noteq> [] then
           (let keyword_count = length (filter (\<lambda>word. 5 < length word) words)
            in case py_div (of_nat keyword_count) (of_nat (length words)) of
                 Inl e \<Rightarrow> Inl e
               | Inr q \<Rightarrow> Inr (details\<lparr>keyword_density := py_round1 (q * 100)\<rparr>))
         else Inr details)"

definition calculate_keyword_score ::
  "string \<Rightarrow> string option \<Rightarrow> py_error + (rat \<times> keyword_details)" where
  "calculate_keyword_score resume_text job_description =
     (let resume_lower = lower resume_text;
          details = check_action_verbs resume_lower ACTION_VERBS
                      \<lparr>action_verbs_found = [], action_verbs_missing = [],
                       keyword_density = 0, kd_matched_keywords = [],
                       kd_missing_keywords = []\<rparr>;
          action_verb_score =
            min (of_nat (length (action_verbs_found details)) / 10) 1 * 25
      in case match_job_description resume_lower job_description details of
           Inl e \<Rightarrow> Inl e
         | Inr (jd_match_score, details') \<Rightarrow>
             (case density resume_text details' of
                Inl e \<Rightarrow> Inl e
              | Inr details'' \<Rightarrow> Inr (action_verb_score + jd_match_score, details'')))"

subsection \<open>\<open>calculate_formatting_score\<close>\<close>

record formatting_details =
  issues :: "string list"
  fd_suggestions :: "string list"
  section_status :: "string \<rightharpoonup> bool"

text \<open>\<open>r'\b' + section + r's?\b'\<close>\<close>

definition section_pattern :: "string \<Rightarrow> regex" where
  "section_pattern section = seqs [Bnd, Lit section, Opt (Lit ''s''), Bnd]"

text \<open>
  The loop over \<open>IMPORTANT_SECTIONS\<close>: it counts the sections found and asks for each
  missing one.
\<close>

fun check_sections ::
  "string \<Rightarrow> string list \<Rightarrow> nat \<times> formatting_details \<Rightarrow> nat \<times> formatting_details" where
  "check_sections text_lower [] st = st"
| "check_sections text_lower (section # sections) (sections_found, details) =
     check_sections text_lower sections
       (if re_search False (section_pattern section) text_lower
        then (sections_found + 1,
              details\<lparr>section_status := (section_status details)(section \<mapsto> True)\<rparr>)
        else (sections_found,
              details\<lparr>section_status := (section_status details)(section \<mapsto> False),
                      fd_suggestions := fd_suggestions details @
                        [''Add a '' @ [CHR 0x27] @ title section @ [CHR 0x27] @ '' section'']\<rparr>))"

text \<open>The loop over \<open>FORMATTING_ISSUES\<close>: the penalty and the issues reported.\<close>

fun check_issues ::
  "string \<Rightarrow> (string \<times> regex \<times> int) list \<Rightarrow> int \<times> formatting_details
     \<Rightarrow> int \<times> formatting_details" where
  "check_issues resume_text [] st = st"
| "check_issues resume_text ((issue_name, pattern, penalty_value) # rest) (penalty, details) =
     check_issues resume_text rest
       (let matches = re_findall False pattern resume_text
        in if matches \<noteq> [] then
             (penalty + min (\<bar>penalty_value\<bar> * int (length matches)) 10,
              details\<lparr>issues := issues details @
                [''Found '' @ show_nat (length matches) @ '' '' @
                 replace_char (CHR ''_'') (CHR '' '') issue_name @ '' instances'']\<rparr>)
           else (penalty, details))"

text \<open>
  The four bullet patterns. The first is the three characters U+00E2, U+20AC, U+00A2 of
  the source, here in their UTF-8 encoding.
\<close>

definition bullet_patterns :: "regex list" where
  "bullet_patterns =
     [Lit [CHR 0xC3, CHR 0xA2, CHR 0xE2, CHR 0x82, CHR 0xAC, CHR 0xC2, CHR 0xA2],
      seqs [Lit ''*'', Cls is_space],
      seqs [Lit ''-'', Rep is_space 1, Cls is_upper],
      seqs [Rep is_digit 1, Lit ''.'']]"

text \<open>The penalty of the word count and of missing bullet points.\<close>

definition check_length :: "string \<Rightarrow> int \<times> formatting_details \<Rightarrow> int \<times> formatting_details" where
  "check_length resume_text st =
     (let penalty = fst st; details = snd st; word_count = length (split resume_text)
      in if word_count < 200 then
           (penalty + 5,
            details\<lparr>fd_suggestions := fd_suggestions details @
              [''Resume appears too short. Add more details about your experience.'']\<rparr>)
         else if 1500 < word_count then
           (penalty + 3,
            details\<lparr>fd_suggestions := fd_suggestions details @
              [''Resume may be too long. Consider condensing to 1-2 pages.'']\<rparr>)
         else (penalty, details))"

definition check_bullets :: "string \<Rightarrow> int \<times> formatting_details \<Rightarrow> int \<times> formatting_details" where
  "check_bullets resume_text st =
     (let penalty = fst st; details = snd st;
          has_bullets = list_ex (\<lambda>p. re_search False p resume_text) bullet_patterns
      in if \<not> has_bullets then
           (penalty + 2,
            details\<lparr>fd_suggestions := fd_suggestions details @
              [''Use bullet points to list achievements and responsibilities'']\<rparr>)
         else (penalty, details))"

definition calculate_formatting_score :: "string \<Rightarrow> py_error + (rat \<times> formatting_details)" where
  "calculate_formatting_score resume_text =
     (let score = 25;
          text_lower = lower resume_text;
          (sections_found, details) =
             check_sections text_lower IMPORTANT_SECTIONS
               (0, \<lparr>issues = [], fd_suggestions = [], section_status = Map.empty\<rparr>)
      in case py_div (of_nat sections_found) (of_nat (length IMPORTANT_SECTIONS)) of
           Inl e \<Rightarrow> Inl e
         | Inr q \<Rightarrow>
             (let section_score = q * 10;
                  (penalty, details') =
                     check_bullets resume_text
                       (check_length resume_text
                          (check_issues resume_text FORMATTING_ISSUES (0, details)));
                  final_score = max 0 (score + section_score - of_int penalty)
              in Inr (min final_score 25, details')))"

subsection \<open>\<open>calculate_skill_coverage\<close>\<close>

record category_entry =
  found :: "string list"
  count :: nat

record skill_details =
  total_skills :: nat
  skill_categories :: "(string \<times> category_entry) list"
  recommendations :: "string list"

definition categories :: "(string \<times> string list) list" where
  "categories =
     [(''programming'', [''python'', ''java'', ''javascript'', ''c++'', ''c#'', ''ruby'',
                         ''go'', ''rust'', ''typescript'']),
      (''data_science'', [''machine learning'', ''deep learning'', ''data analysis'',
                          ''tensorflow'', ''pytorch'', ''pandas'', ''numpy'']),
      (''web'', [''html'', ''css'', ''react'', ''angular'', ''vue'', ''node.js'', ''django'',
                 ''flask'']),
      (''cloud'', [''aws'', ''azure'', ''gcp'', ''docker'', ''kubernetes'']),
      (''database'', [''sql'', ''mysql'', ''postgresql'', ''mongodb'', ''redis'']),
      (''soft_skills'', [''leadership'', ''communication'', ''teamwork'',
                         ''problem solving'', ''project management''])]"

text \<open>The loop over the categories: the canonical skills that the skill list holds.\<close>

fun categorize ::
  "string list \<Rightarrow> (string \<times> string list) list \<Rightarrow> (string \<times> category_entry) list
     \<Rightarrow> (string \<times> category_entry) list" where
  "categorize skills_lower [] acc = acc"
| "categorize skills_lower ((category, category_skills) # rest) acc =
     categorize skills_lower rest
       (let matched = filter (\<lambda>s. List.member skills_lower s) category_skills
        in acc @ [(category, \<lparr>found = matched, count = length matched\<rparr>)])"

text \<open>\<open>details['skill_categories'][name]['count']\<close>\<close>

definition category_count :: "(string \<times> category_entry) list \<Rightarrow> string \<Rightarrow> py_error + nat" where
  "category_count cats name =
     (case map_of cats name of None \<Rightarrow> Inl KeyError | Some entry \<Rightarrow> Inr (count entry))"

definition calculate_skill_coverage ::
  "string list \<Rightarrow> string option \<Rightarrow> py_error + (rat \<times> skill_details)" where
  "calculate_skill_coverage skills job_description =
     (let skills_lower = map lower skills;
          cats = categorize skills_lower categories [];
          base_score = min (of_nat (length skills) / 10) 1 * 15;
          categories_with_skills = length (filter (\<lambda>cat. 0 < count (snd cat)) cats)
      in case py_div (of_nat categories_with_skills) (of_nat (length categories)) of
           Inl e \<Rightarrow> Inl e
         | Inr q \<Rightarrow>
             (let diversity_bonus = q * 10
              in case category_count cats ''programming'' of
                   Inl e \<Rightarrow> Inl e
                 | Inr programming \<Rightarrow>
                     (case category_count cats ''soft_skills'' of
                        Inl e \<Rightarrow> Inl e
                      | Inr soft_skills \<Rightarrow>
                          (let r1 = (if programming = 0
                                     then [''Add programming languages to your skills'']
                                     else []);
                               r2 = (if soft_skills = 0
                                     then [''Include soft skills like leadership and communication'']
                                     else []);
                               r3 = (if length skills < 5
                                     then [''Add more relevant skills to improve your profile'']
                                     else []);
                               total_score = base_score + diversity_bonus
                           in Inr (min total_score 25,
                                   \<lparr>total_skills = length skills, skill_categories = cats,
                                    recommendations = r1 @ r2 @ r3\<rparr>)))))"

subsection \<open>\<open>calculate_experience_quality\<close>\<close>

record experience_details =
  metrics_found :: "(string \<times> string) list"
  achievements :: nat
  ed_suggestions :: "string list"

text \<open>\<open>\d+\<close> and \<open>\s*\<close>, \<open>\s+\<close>\<close>

definition digits :: regex where
  "digits = Rep is_digit 1"

definition spaces :: "nat \<Rightarrow> regex" where
  "spaces n = Rep is_space n"

text \<open>\<open>word s?\<close>: a noun with an optional plural.\<close>

definition plural :: "string \<Rightarrow> regex" where
  "plural w = Seq (Lit w) (Opt (Lit ''s''))"

text \<open>The seven metric patterns with their metric types, searched under IGNORECASE.\<close>

definition metric_patterns :: "(regex \<times> string) list" where
  "metric_patterns =
     [(seqs [digits, Lit ''%''], ''percentage''),
      (seqs [Lit ''$'', Rep (\<lambda>c. is_digit c \<or> c = CHR '','') 1,
             Opt (Cls (\<lambda>c. List.member ''KMB'' c))], ''monetary''),
      (seqs [digits, spaces 0, alts [plural ''user'', plural ''customer'', plural ''client'']],
       ''user_impact''),
      (seqs [digits, spaces 0,
             alts [plural ''project'', plural ''application'', plural ''system'']],
       ''project_count''),
      (seqs [alts [Lit ''increased'', Lit ''decreased'', Lit ''improved'', Lit ''reduced'',
                   Lit ''grew'', Lit ''saved''],
             spaces 1, Opt (Seq (Lit ''by'') (spaces 1)), digits], ''improvement''),
      (seqs [digits, spaces 0,
             alts [Lit ''team'', Lit ''people'', Lit ''employees'', Lit ''members'']],
       ''team_size''),
      (seqs [digits, spaces 0, alts [plural ''year'', plural ''month''], spaces 0,
             alts [Lit ''experience'', Lit ''of'']], ''experience_duration'')]"

text \<open>
  The loop over the metric patterns: at most three samples of each pattern go to
  \<open>metrics_found\<close>, every match counts in \<open>achievements\<close>.
\<close>

fun collect_metrics ::
  "string \<Rightarrow> (regex \<times> string) list \<Rightarrow> experience_details \<Rightarrow> experience_details" where
  "collect_metrics resume_text [] details = details"
| "collect_metrics resume_text ((pattern, metric_type) # rest) details =
     collect_metrics resume_text rest
       (let matches = re_findall True pattern resume_text
        in if matches \<noteq> [] then
             details\<lparr>metrics_found := metrics_found details @
                        map (\<lambda>m. (m, metric_type)) (take 3 matches),
                     achievements := achievements details + length matches\<rparr>
           else details)"

text \<open>\<open>stem(?:ed|ing)?\<close> and \<open>success(?:ful)?\<close>\<close>

definition inflected :: "string \<Rightarrow> regex" where
  "inflected stem = Seq (Lit stem) (Opt (Alt (Lit ''ed'') (Lit ''ing'')))"

definition result_patterns :: "regex list" where
  "result_patterns =
     [inflected ''result'', inflected ''achiev'', inflected ''accomplish'',
      inflected ''deliver'', inflected ''complet'',
      Seq (Lit ''success'') (Opt (Lit ''ful''))]"

text \<open>The details after the loop over the metric patterns.\<close>

definition find_metrics :: "string \<Rightarrow> experience_details" where
  "find_metrics resume_text =
     collect_metrics resume_text metric_patterns
       \<lparr>metrics_found = [], achievements = 0, ed_suggestions = []\<rparr>"

text \<open>\<open>metrics_score = min(len(details['metrics_found']) / 5, 1) * 15\<close>\<close>

definition metrics_score :: "experience_details \<Rightarrow> rat" where
  "metrics_score details = min (of_nat (length (metrics_found details)) / 5) 1 * 15"

definition calculate_experience_quality :: "string \<Rightarrow> rat \<times> experience_details" where
  "calculate_experience_quality resume_text =
     (let details = find_metrics resume_text;
          result_count =
            sum_list (map (\<lambda>p. length (re_findall True p resume_text)) result_patterns);
          result_bonus = min (of_nat result_count / 5) 1 * 10;
          s1 = (if metrics_found details = []
                then [''Add quantifiable achievements (e.g., '' @ [CHR 0x27] @
                      ''Increased sales by 25%'' @ [CHR 0x27] @ '')'']
                else []);
          s2 = (if result_count < 3
                then [''Use more result-oriented language to describe achievements'']
                else []);
          total_score = metrics_score details + result_bonus
      in (min total_score 25, details\<lparr>ed_suggestions := s1 @ s2\<rparr>))"

subsection \<open>\<open>calculate_ats_score\<close>\<close>

record score_breakdown =
  keyword_score :: rat
  formatting_score :: rat
  skill_score :: rat
  experience_score :: rat

record ats_details =
  ad_keywords :: keyword_details
  ad_formatting :: formatting_details
  ad_skills :: skill_details
  ad_experience :: experience_details

record ats_result =
  total_score :: int
  grade :: string
  grade_text :: string
  breakdown :: score_breakdown
  details :: ats_details
  suggestions :: "string list"
  missing_keywords :: "string list"

text \<open>The grade and its text, by the thresholds of the \<open>if\<close> chain.\<close>

definition grade_of :: "int \<Rightarrow> string \<times> string" where
  "grade_of total_sc =
     (if 85 \<le> total_sc then (''A'', ''Excellent'')
      else if 70 \<le> total_sc then (''B'', ''Good'')
      else if 55 \<le> total_sc then (''C'', ''Average'')
      else if 40 \<le> total_sc then (''D'', ''Needs Improvement'')
      else (''F'', ''Poor''))"

definition calculate_ats_score ::
  "string \<Rightarrow> string list \<Rightarrow> string option \<Rightarrow> py_error + ats_result" where
  "calculate_ats_score resume_text skill_list job_description =
     (case calculate_keyword_score resume_text job_description of
        Inl e \<Rightarrow> Inl e
      | Inr (keyword_sc, keyword_details) \<Rightarrow>
     (case calculate_formatting_score resume_text of
        Inl e \<Rightarrow> Inl e
      | Inr (formatting_sc, formatting_details) \<Rightarrow>
     (case calculate_skill_coverage skill_list job_description of
        Inl e \<Rightarrow> Inl e
      | Inr (skill_sc, skill_details) \<Rightarrow>
     (let (experience_sc, experience_details) = calculate_experience_quality resume_text;
          raw_total = keyword_sc + formatting_sc + skill_sc + experience_sc;
          total_sc = min (max (py_round raw_total) 0) 100;
          (g, gt) = grade_of total_sc;
          all_suggestions = fd_suggestions formatting_details @
                            recommendations skill_details @
                            ed_suggestions experience_details
      in Inr \<lparr>total_score = total_sc, grade = g, grade_text = gt,
               breakdown = \<lparr>keyword_score = py_round1 keyword_sc,
                            formatting_score = py_round1 formatting_sc,
                            skill_score = py_round1 skill_sc,
                            experience_score = py_round1 experience_sc\<rparr>,
               details = \<lparr>ad_keywords = keyword_details,
                          ad_formatting = formatting_details,
                          ad_skills = skill_details,
                          ad_experience = experience_details\<rparr>,
               suggestions = take 10 all_suggestions,
               missing_keywords = take 15 (kd_missing_keywords keyword_details)\<rparr>))))"

subsection \<open>\<open>calculate_job_match\<close>\<close>

record match_result =
  overall_match :: rat
  match_level :: string
  keyword_match :: rat
  skill_match :: rat
  mr_matched_keywords :: "string list"
  mr_missing_keywords :: "string list"
  matched_skills :: "string list"
  missing_skills :: "string list"
  recommendation :: string

text \<open>The stop words of \<open>calculate_job_match\<close>, a table of its own.\<close>

definition jm_common_words :: "string list" where
  "jm_common_words =
     [''the'', ''a'', ''an'', ''and'', ''or'', ''but'', ''in'', ''on'', ''at'', ''to'',
      ''for'', ''of'', ''with'', ''by'', ''is'', ''are'', ''was'', ''were'', ''be'',
      ''been'', ''have'', ''has'', ''had'', ''will'', ''would'', ''should'', ''must'',
      ''can'', ''this'', ''that'', ''we'', ''you'', ''they'', ''it'', ''your'', ''our'',
      ''their'', ''who'', ''what'', ''which'', ''when'', ''where'', ''as'', ''if'',
      ''about'', ''into'', ''through'', ''during'', ''before'', ''after'', ''above'',
      ''below'', ''between'', ''under'', ''again'', ''further'', ''then'', ''once'',
      ''here'', ''there'', ''all'', ''each'', ''few'', ''more'', ''most'', ''other'',
      ''some'', ''such'', ''no'', ''not'', ''only'', ''same'', ''than'', ''too'',
      ''very'', ''just'', ''also'', ''work'', ''working'', ''job'', ''position'',
      ''role'', ''looking'', ''seeking'', ''required'', ''requirements'',
      ''qualifications'', ''responsibilities'', ''experience'', ''years'', ''ability'',
      ''skills'', ''strong'', ''excellent'', ''preferred'', ''including'', ''etc'',
      ''plus'', ''bonus'']"

definition skill_indicators :: "string list" where
  "skill_indicators =
     [''python'', ''java'', ''javascript'', ''react'', ''angular'', ''node'', ''sql'',
      ''aws'', ''azure'', ''docker'', ''kubernetes'', ''machine learning'', ''data'',
      ''analysis'', ''excel'', ''communication'', ''leadership'', ''agile'', ''scrum'',
      ''git'', ''api'', ''rest'', ''cloud'', ''linux'', ''tensorflow'', ''pytorch'']"

text \<open>
  \<open>Counter(ws).most_common(n)\<close>, the words only: the distinct words by falling count,
  words of equal count in the order of their first occurrence (the sort is stable).
\<close>

definition most_common :: "nat \<Rightarrow> string list \<Rightarrow> string list" where
  "most_common n ws = take n (sort_key (\<lambda>w. - int (count_list ws w)) (py_set ws))"

text \<open>The loop that sorts the important keywords into matched and missing.\<close>

fun match_keywords ::
  "string \<Rightarrow> string list \<Rightarrow> string list \<times> string list \<Rightarrow> string list \<times> string list" where
  "match_keywords resume_lower [] st = st"
| "match_keywords resume_lower (keyword # rest) (matched_kws, missing_kws) =
     match_keywords resume_lower rest
       (if str_in keyword resume_lower
        then (matched_kws @ [keyword], missing_kws)
        else (matched_kws, missing_kws @ [keyword]))"

text \<open>The loop that collects the skill indicators named in the job description.\<close>

fun find_jd_skills :: "string \<Rightarrow> string list \<Rightarrow> string list \<Rightarrow> string list" where
  "find_jd_skills jd_lower [] jd_skills = jd_skills"
| "find_jd_skills jd_lower (skill # rest) jd_skills =
     find_jd_skills jd_lower rest
       (if str_in skill jd_lower then jd_skills @ [skill] else jd_skills)"

text \<open>The match level and its recommendation, by the thresholds of the \<open>if\<close> chain.\<close>

definition match_tier :: "rat \<Rightarrow> string \<times> string" where
  "match_tier overall =
     (if 75 \<le> overall then
        (''Strong Match'',
         ''Your resume is well-aligned with this position. Consider applying!'')
      else if 50 \<le> overall then
        (''Moderate Match'',
         ''You have relevant experience. Tailor your resume to highlight matching skills.'')
      else if 30 \<le> overall then
        (''Partial Match'',
         ''Some skills align. Focus on transferable skills and consider upskilling.'')
      else
        (''Low Match'',
         ''This role may require significant skill development. Consider related positions.''))"

definition calculate_job_match ::
  "string \<Rightarrow> string list \<Rightarrow> string \<Rightarrow> py_error + match_result" where
  "calculate_job_match resume_text resume_skills job_description =
     (let jd_lower = lower job_description;
          resume_lower = lower resume_text;
          jd_words = filter (\<lambda>w. \<not> List.member jm_common_words w)
                       (re_findall False word3 jd_lower);
          important_keywords = most_common 30 jd_words;
          (matched_kws, missing_kws) =
             match_keywords resume_lower important_keywords ([], []);
          resume_skills_lower = map lower resume_skills;
          jd_skills = find_jd_skills jd_lower skill_indicators [];
          matched = filter (\<lambda>s. list_ex (\<lambda>rs. str_in s rs) resume_skills_lower) jd_skills;
          missing = filter (\<lambda>s. \<not> list_ex (\<lambda>rs. str_in s rs) resume_skills_lower) jd_skills
      in case py_div (of_nat (length matched_kws))
                     (of_nat (max (length important_keywords) 1)) of
           Inl e \<Rightarrow> Inl e
         | Inr kq \<Rightarrow>
             (case (if jd_skills \<noteq> []
                    then (case py_div (of_nat (length matched))
                                      (of_nat (max (length jd_skills) 1)) of
                            Inl e \<Rightarrow> Inl e
                          | Inr sq \<Rightarrow> Inr (sq * 100))
                    else Inr 50) of
                Inl e \<Rightarrow> Inl e
              | Inr skill_m \<Rightarrow>
                  (let keyword_m = kq * 100;
                       overall = keyword_m * (6 / 10) + skill_m * (4 / 10);
                       (level, advice) = match_tier overall
                   in Inr \<lparr>overall_match = py_round1 overall,
                            match_level = level,
                            keyword_match = py_round1 keyword_m,
                            skill_match = py_round1 skill_m,
                            mr_matched_keywords = take 15 matched_kws,
                            mr_missing_keywords = take 15 missing_kws,
                            matched_skills = matched,
                            missing_skills = take 10 missing,
                            recommendation = advice\<rparr>)))"

section \<open>The quantities of the specification\<close>

text \<open>
  The definitions of this section follow the wording of the specification; the theorems
  below compare them with the functions of the source.
\<close>

text \<open>The action verbs that occur in the resume as whole words, in any case.\<close>

definition verbs_in :: "string \<Rightarrow> string list" where
  "verbs_in resume_text =
     filter (\<lambda>verb. re_search False (verb_pattern verb) (lower resume_text)) ACTION_VERBS"

definition verbs_not_in :: "string \<Rightarrow> string list" where
  "verbs_not_in resume_text =
     filter (\<lambda>verb. \<not> re_search False (verb_pattern verb) (lower resume_text)) ACTION_VERBS"

text \<open>\<open>clamp(x, lo, hi)\<close>\<close>

definition clamp :: "rat \<Rightarrow> rat \<Rightarrow> rat \<Rightarrow> rat" where
  "clamp x lo hi = max lo (min x hi)"

text \<open>The number of the five sections that the resume names.\<close>

definition sections_found_in :: "string \<Rightarrow> nat" where
  "sections_found_in resume_text =
     length (filter (\<lambda>section. re_search False (section_pattern section) (lower resume_text))
               IMPORTANT_SECTIONS)"

text \<open>The number of occurrences of an issue pattern in the resume.\<close>

definition occurrences :: "regex \<Rightarrow> string \<Rightarrow> nat" where
  "occurrences pattern resume_text = length (re_findall False pattern resume_text)"

text \<open>The penalty of the word count and the penalty of missing bullet points.\<close>

definition length_penalty :: "string \<Rightarrow> int" where
  "length_penalty resume_text =
     (if length (split resume_text) < 200 then 5
      else if 1500 < length (split resume_text) then 3 else 0)"

definition bullet_penalty :: "string \<Rightarrow> int" where
  "bullet_penalty resume_text =
     (if list_ex (\<lambda>p. re_search False p resume_text) bullet_patterns then 0 else 2)"

text \<open>
  The total penalty: each of the three issue categories capped at 10, then the two
  penalties above.
\<close>

definition total_penalty :: "string \<Rightarrow> int" where
  "total_penalty resume_text =
     min (5 * int (occurrences tables_pattern resume_text)) 10 +
     min (2 * int (occurrences special_chars_pattern resume_text)) 10 +
     min (3 * int (occurrences excessive_caps_pattern resume_text)) 10 +
     length_penalty resume_text + bullet_penalty resume_text"

definition spec_formatting_score :: "string \<Rightarrow> rat" where
  "spec_formatting_score resume_text =
     clamp (25 + of_nat (sections_found_in resume_text) / 5 * 10
               - of_int (total_penalty resume_text)) 0 25"

text \<open>The order of the grades: A above B above C above D above F.\<close>

definition grade_rank :: "string \<Rightarrow> nat" where
  "grade_rank g =
     (if g = ''A'' then 4 else if g = ''B'' then 3 else if g = ''C'' then 2
      else if g = ''D'' then 1 else 0)"

text \<open>The sum of the four sub-scores that a result reports.\<close>

definition reported_sum :: "ats_result \<Rightarrow> rat" where
  "reported_sum r =
     keyword_score (breakdown r) + formatting_score (breakdown r) +
     skill_score (breakdown r) + experience_score (breakdown r)"

text \<open>
  The important keywords of a job description and those of them that the resume
  contains; the skill indicators of a job description and those of them that some
  resume skill contains.
\<close>

definition important_keywords_of :: "string \<Rightarrow> string list" where
  "important_keywords_of job_description =
     most_common 30 (filter (\<lambda>w. \<not> List.member jm_common_words w)
                       (re_findall False word3 (lower job_description)))"

definition matched_keywords_of :: "string \<Rightarrow> string \<Rightarrow> string list" where
  "matched_keywords_of resume_text job_description =
     filter (\<lambda>keyword. str_in keyword (lower resume_text))
       (important_keywords_of job_description)"

definition jd_skills_of :: "string \<Rightarrow> string list" where
  "jd_skills_of job_description =
     filter (\<lambda>skill. str_in skill (lower job_description)) skill_indicators"

definition matched_skills_of :: "string list \<Rightarrow> string \<Rightarrow> string list" where
  "matched_skills_of resume_skills job_description =
     filter (\<lambda>s. list_ex (\<lambda>rs. str_in s rs) (map lower resume_skills))
       (jd_skills_of job_description)"

text \<open>The two match percentages, before they are rounded.\<close>

definition keyword_match_pct :: "string \<Rightarrow> string \<Rightarrow> rat" where
  "keyword_match_pct resume_text job_description =
     of_nat (length (matched_keywords_of resume_text job_description)) /
     of_nat (max (length (important_keywords_of job_description)) 1) * 100"

definition skill_match_pct :: "string list \<Rightarrow> string \<Rightarrow> rat" where
  "skill_match_pct resume_skills job_description =
     (if jd_skills_of job_description = [] then 50
      else of_nat (length (matched_skills_of resume_skills job_description)) /
           of_nat (length (jd_skills_of job_description)) * 100)"

section \<open>Properties\<close>

subsection \<open>Rounding\<close>

lemma py_round_lower: "of_int a \<le> x \<Longrightarrow> a \<le> py_round x"
proof -
  assume "of_int a \<le> x"
  then have "a \<le> \<lfloor>x\<rfloor>" by (simp add: le_floor_iff)
  then show ?thesis unfolding py_round_def Let_def by auto
qed

lemma py_round_upper: "x \<le> of_int b \<Longrightarrow> py_round x \<le> b"
proof -
  assume h: "x \<le> of_int b"
  have fl: "\<lfloor>x\<rfloor> \<le> b" using h by (simp add: floor_le_iff)
  show ?thesis
  proof (cases "\<lfloor>x\<rfloor> = b")
    case True
    then have "x - of_int \<lfloor>x\<rfloor> \<le> 0" using h by simp
    then show ?thesis unfolding py_round_def Let_def using True by auto
  next
    case False
    then have "\<lfloor>x\<rfloor> + 1 \<le> b" using fl by linarith
    then show ?thesis unfolding py_round_def Let_def using fl by auto
  qed
qed

lemma py_round1_bounds:
  assumes "of_int a \<le> x" "x \<le> of_int b"
  shows "of_int a \<le> py_round1 x \<and> py_round1 x \<le> of_int b"
proof -
  have 1: "of_int (a * 10) \<le> x * 10" using assms(1) by simp
  have 2: "x * 10 \<le> of_int (b * 10)" using assms(2) by simp
  have l: "a * 10 \<le> py_round (x * 10)" by (rule py_round_lower [OF 1])
  have u: "py_round (x * 10) \<le> b * 10" by (rule py_round_upper [OF 2])
  have l': "(of_int (a * 10) :: rat) \<le> of_int (py_round (x * 10))"
    using l by (simp only: of_int_le_iff)
  have u': "(of_int (py_round (x * 10)) :: rat) \<le> of_int (b * 10)"
    using u by (simp only: of_int_le_iff)
  show ?thesis unfolding py_round1_def using l' u' by simp
qed

subsection \<open>The keyword analyser\<close>

lemma check_action_verbs_found:
  "action_verbs_found (check_action_verbs rl vs d) =
     action_verbs_found d @ filter (\<lambda>v. re_search False (verb_pattern v) rl) vs"
  by (induction vs arbitrary: d) auto

lemma check_action_verbs_missing:
  "action_verbs_missing (check_action_verbs rl vs d) =
     action_verbs_missing d @ filter (\<lambda>v. \<not> re_search False (verb_pattern v) rl) vs"
  by (induction vs arbitrary: d) auto

lemma ratio_bound:
  "a \<le> n \<Longrightarrow> 0 < n \<Longrightarrow> (of_nat a :: rat) * 25 / of_nat n \<le> 25"
  by (simp add: pos_divide_le_eq)

lemma match_job_description_ok:
  "\<exists>s d'. match_job_description rl jd d = Inr (s, d') \<and> 0 \<le> s \<and> s \<le> 25 \<and>
     action_verbs_found d' = action_verbs_found d \<and>
     action_verbs_missing d' = action_verbs_missing d \<and>
     (\<not> truthy jd \<longrightarrow> s = 15)"
proof (cases "truthy jd")
  case False
  then show ?thesis by (simp add: match_job_description_def)
next
  case True
  then show ?thesis
    by (simp add: match_job_description_def Let_def py_div_def ratio_bound
             del: filter_filter)
qed

lemma density_ok:
  "\<exists>d'. density rt d = Inr d' \<and> action_verbs_found d' = action_verbs_found d \<and>
     action_verbs_missing d' = action_verbs_missing d"
  by (simp add: density_def Let_def py_div_def)

text \<open>
  What \<open>calculate_keyword_score\<close> returns: it never raises, its two verb lists are the
  verbs found and not found, its score lies between 0 and 50, and without a job
  description the score is the action verb score plus 15.
\<close>

lemma keyword_score_shape:
  "\<exists>sc d. calculate_keyword_score rt jd = Inr (sc, d) \<and>
     action_verbs_found d = verbs_in rt \<and>
     action_verbs_missing d = verbs_not_in rt \<and>
     0 \<le> sc \<and> sc \<le> 50 \<and>
     (\<not> truthy jd \<longrightarrow> sc = min (of_nat (length (verbs_in rt)) / 10) 1 * 25 + 15)"
proof -
  let ?d0 = "\<lparr>action_verbs_found = [], action_verbs_missing = [],
               keyword_density = 0, kd_matched_keywords = [],
               kd_missing_keywords = []\<rparr>"
  let ?d1 = "check_action_verbs (lower rt) ACTION_VERBS ?d0"
  have f1: "action_verbs_found ?d1 = verbs_in rt"
    by (simp add: check_action_verbs_found verbs_in_def)
  have m1: "action_verbs_missing ?d1 = verbs_not_in rt"
    by (simp add: check_action_verbs_missing verbs_not_in_def)
  obtain s d2 where 2: "match_job_description (lower rt) jd ?d1 = Inr (s, d2)"
    and s: "0 \<le> s" "s \<le> 25" "\<not> truthy jd \<longrightarrow> s = 15"
    and f2: "action_verbs_found d2 = action_verbs_found ?d1"
    and m2: "action_verbs_missing d2 = action_verbs_missing ?d1"
    using match_job_description_ok [of "lower rt" jd ?d1] by blast
  obtain d3 where 3: "density rt d2 = Inr d3"
    and f3: "action_verbs_found d3 = action_verbs_found d2"
    and m3: "action_verbs_missing d3 = action_verbs_missing d2"
    using density_ok [of rt d2] by blast
  let ?a = "min (of_nat (length (verbs_in rt)) / 10) 1 * 25 :: rat"
  have a: "0 \<le> ?a" "?a \<le> 25" by simp_all
  have "calculate_keyword_score rt jd = Inr (?a + s, d3)"
    unfolding calculate_keyword_score_def Let_def by (simp only: 2 3 f1 sum.case prod.case)
  moreover have "0 \<le> ?a + s" "?a + s \<le> 50" using a s by linarith+
  ultimately show ?thesis using f1 m1 f2 m2 f3 m3 s(3) by auto
qed

lemma length_ACTION_VERBS: "length ACTION_VERBS = 35"
  by (simp add: ACTION_VERBS_def)

lemma distinct_ACTION_VERBS: "distinct ACTION_VERBS"
  by (simp add: ACTION_VERBS_def)

text \<open>
  Claim C9, amended. For every resume text and job description, the lists
  \<open>action_verbs_found\<close> and \<open>action_verbs_missing\<close> that \<open>calculate_keyword_score\<close>
  returns partition the vocabulary \<open>ACTION_VERBS\<close>: both keep the order of the
  vocabulary, neither repeats a verb, every verb of the vocabulary is in exactly one of
  them, and their lengths add up to 35, the size of the vocabulary (the claim says 34).
\<close>

theorem action_verbs_partition:
  "\<exists>sc d. calculate_keyword_score resume_text job_description = Inr (sc, d) \<and>
     subseq (action_verbs_found d) ACTION_VERBS \<and>
     subseq (action_verbs_missing d) ACTION_VERBS \<and>
     distinct (action_verbs_found d) \<and> distinct (action_verbs_missing d) \<and>
     (\<forall>verb \<in> set ACTION_VERBS.
        (verb \<in> set (action_verbs_found d)) \<noteq> (verb \<in> set (action_verbs_missing d))) \<and>
     length (action_verbs_found d) + length (action_verbs_missing d) = 35"
proof -
  obtain sc d where r: "calculate_keyword_score resume_text job_description = Inr (sc, d)"
    and f: "action_verbs_found d = verbs_in resume_text"
    and m: "action_verbs_missing d = verbs_not_in resume_text"
    using keyword_score_shape [of resume_text job_description] by blast
  have 1: "subseq (action_verbs_found d) ACTION_VERBS"
    unfolding f verbs_in_def by (rule subseq_filter_left)
  have 2: "subseq (action_verbs_missing d) ACTION_VERBS"
    unfolding m verbs_not_in_def by (rule subseq_filter_left)
  have 3: "distinct (action_verbs_found d)" "distinct (action_verbs_missing d)"
    unfolding f m verbs_in_def verbs_not_in_def
    using distinct_ACTION_VERBS by (rule distinct_filter)+
  have 4: "\<forall>verb \<in> set ACTION_VERBS.
        (verb \<in> set (action_verbs_found d)) \<noteq> (verb \<in> set (action_verbs_missing d))"
    unfolding f m verbs_in_def verbs_not_in_def by auto
  have 5: "length (action_verbs_found d) + length (action_verbs_missing d) = 35"
    unfolding f m verbs_in_def verbs_not_in_def
    by (simp only: sum_length_filter_compl length_ACTION_VERBS)
  from r 1 2 3 4 5 show ?thesis by blast
qed

text \<open>The partition at the resume \<open>I led a team\<close> and the verb \<open>led\<close>.\<close>

theorem action_verbs_partition_witness:
  "''led'' \<in> set ACTION_VERBS \<and>
   (\<exists>sc d. calculate_keyword_score ''I led a team'' None = Inr (sc, d) \<and>
      ((''led'' \<in> set (action_verbs_found d)) \<noteq> (''led'' \<in> set (action_verbs_missing d))) \<and>
      length (action_verbs_found d) + length (action_verbs_missing d) = 35)"
proof -
  have v: "''led'' \<in> set ACTION_VERBS" by (simp add: ACTION_VERBS_def)
  from action_verbs_partition [of "''I led a team''" None] v show ?thesis by blast
qed

text \<open>
  Claim C9 as stated fails: on the empty resume no verb is found and 35 verbs are
  missing, so the lengths do not add up to 34.
\<close>

theorem action_verbs_count_counterexample:
  "map_sum id (length \<circ> action_verbs_found \<circ> snd) (calculate_keyword_score [] None) = Inr 0 \<and>
   map_sum id (length \<circ> action_verbs_missing \<circ> snd) (calculate_keyword_score [] None) = Inr 35 \<and>
   (0::nat) + 35 \<noteq> 34"
  by code_simp

text \<open>
  Claim C3, amended. When the job description is absent (or empty), the keyword score
  that \<open>calculate_keyword_score\<close> returns is \<open>min(found / 10, 1) * 25 + 15\<close>, where
  \<open>found\<close> is the number of the verbs of \<open>ACTION_VERBS\<close> that occur in the lowered
  resume as whole words; the vocabulary has 35 verbs (the claim says 34). A resume with
  exactly three of them has the keyword score 22.5.
\<close>

theorem keyword_score_without_job_description:
  assumes "\<not> truthy job_description"
  shows "\<exists>d. calculate_keyword_score resume_text job_description =
              Inr (min (of_nat (length (verbs_in resume_text)) / 10) 1 * 25 + 15, d) \<and>
             action_verbs_found d = verbs_in resume_text \<and>
             set (verbs_in resume_text) \<subseteq> set ACTION_VERBS \<and>
             length ACTION_VERBS = 35 \<and>
             (length (verbs_in resume_text) = 3 \<longrightarrow>
                calculate_keyword_score resume_text job_description = Inr (45 / 2, d))"
proof -
  obtain sc d where r: "calculate_keyword_score resume_text job_description = Inr (sc, d)"
    and f: "action_verbs_found d = verbs_in resume_text"
    and s: "\<not> truthy job_description \<longrightarrow>
              sc = min (of_nat (length (verbs_in resume_text)) / 10) 1 * 25 + 15"
    using keyword_score_shape [of resume_text job_description] by blast
  have sc: "sc = min (of_nat (length (verbs_in resume_text)) / 10) 1 * 25 + 15"
    using s assms by simp
  have sub: "set (verbs_in resume_text) \<subseteq> set ACTION_VERBS"
    by (simp add: verbs_in_def)
  have three: "length (verbs_in resume_text) = 3 \<longrightarrow> sc = 45 / 2"
    unfolding sc by simp
  from r sc f sub three length_ACTION_VERBS show ?thesis by auto
qed

text \<open>The example of the specification: three action verbs and no job description.\<close>

theorem keyword_score_without_job_description_witness:
  "\<not> truthy None \<and>
   verbs_in ''I managed, developed and led.'' = [''developed'', ''led'', ''managed''] \<and>
   (\<exists>d. calculate_keyword_score ''I managed, developed and led.'' None = Inr (45 / 2, d))"
proof -
  have t: "\<not> truthy None" by (simp add: truthy_def)
  have v: "verbs_in ''I managed, developed and led.'' = [''developed'', ''led'', ''managed'']"
    by code_simp
  from keyword_score_without_job_description [OF t, of "''I managed, developed and led.''"]
  show ?thesis using t v by auto
qed

text \<open>
  Claim C3 as stated fails in its count of the vocabulary: on the resume \<open>led\<close> one verb
  of the vocabulary is found and 34 others are not, which a vocabulary of 34 verbs
  cannot give.
\<close>

theorem action_verb_vocabulary_counterexample:
  "map_sum id (length \<circ> action_verbs_found \<circ> snd) (calculate_keyword_score ''led'' None) = Inr 1 \<and>
   map_sum id (length \<circ> action_verbs_missing \<circ> snd) (calculate_keyword_score ''led'' None) = Inr 34 \<and>
   map_sum id fst (calculate_keyword_score ''led'' None) = Inr (35 / 2) \<and>
   (1::nat) + 34 \<noteq> 34"
  by code_simp

subsection \<open>The formatting analyser\<close>

lemma check_sections_count:
  "fst (check_sections txt secs (n, d)) =
     n + length (filter (\<lambda>s. re_search False (section_pattern s) txt) secs)"
  by (induction secs arbitrary: n d) auto

lemma check_issues_penalty:
  "fst (check_issues rt iss (p, d)) =
     p + sum_list (map (\<lambda>(nm, pat, v). min (\<bar>v\<bar> * int (length (re_findall False pat rt))) 10) iss)"
  by (induction iss arbitrary: p d) (auto simp: Let_def)

lemma check_length_penalty: "fst (check_length rt st) = fst st + length_penalty rt"
  by (simp add: check_length_def length_penalty_def Let_def)

lemma check_bullets_penalty: "fst (check_bullets rt st) = fst st + bullet_penalty rt"
  by (simp add: check_bullets_def bullet_penalty_def Let_def)

lemma issues_penalty_total:
  "fst (check_bullets rt (check_length rt (check_issues rt FORMATTING_ISSUES (0, d)))) =
     total_penalty rt"
  unfolding check_bullets_penalty check_length_penalty check_issues_penalty
  by (simp add: FORMATTING_ISSUES_def total_penalty_def occurrences_def)

lemma clamp_code: "min (max 0 x) 25 = clamp x 0 25"
  by (simp add: clamp_def)

lemma clamp_bounds: "0 \<le> clamp x 0 25 \<and> clamp x 0 25 \<le> 25"
  by (simp add: clamp_def)

text \<open>The score of the source is the score of the specification.\<close>

lemma formatting_score_shape:
  "\<exists>d. calculate_formatting_score rt = Inr (spec_formatting_score rt, d)"
proof -
  obtain n d where cs: "check_sections (lower rt) IMPORTANT_SECTIONS
      (0, \<lparr>issues = [], fd_suggestions = [], section_status = Map.empty\<rparr>) = (n, d)"
    by (cases "check_sections (lower rt) IMPORTANT_SECTIONS
      (0, \<lparr>issues = [], fd_suggestions = [], section_status = Map.empty\<rparr>)") 
  have n: "n = sections_found_in rt"
    using check_sections_count [of "lower rt" IMPORTANT_SECTIONS 0
        "\<lparr>issues = [], fd_suggestions = [], section_status = Map.empty\<rparr>"]
    by (simp add: cs sections_found_in_def)
  have len: "length IMPORTANT_SECTIONS = 5" by (simp add: IMPORTANT_SECTIONS_def)
  obtain p d' where ci: "check_bullets rt (check_length rt (check_issues rt FORMATTING_ISSUES (0, d))) = (p, d')"
    by (cases "check_bullets rt (check_length rt (check_issues rt FORMATTING_ISSUES (0, d)))")
  have p: "p = total_penalty rt" using issues_penalty_total [of rt d] by (simp add: ci)
  have "calculate_formatting_score rt =
          Inr (min (max 0 (25 + of_nat n / 5 * 10 - of_int p)) 25, d')"
    unfolding calculate_formatting_score_def Let_def
    by (simp add: cs ci len py_div_def)
  then show ?thesis
    unfolding spec_formatting_score_def n p by (simp only: clamp_code) blast
qed

text \<open>
  Claim C5. For every resume text, \<open>calculate_formatting_score\<close> returns
  \<open>clamp(25 + (sections_found / 5) * 10 - total_penalty, 0, 25)\<close>; in the total penalty
  each of the three issue categories (tables, special characters, excessive capitals)
  counts \<open>min(|value| * occurrences, 10)\<close>, so each is capped at 10 before the sum, to
  which the penalties of the word count and of missing bullet points are added.
\<close>

theorem formatting_score_formula:
  "\<exists>d. calculate_formatting_score resume_text =
          Inr (clamp (25 + of_nat (sections_found_in resume_text) / 5 * 10
                         - of_int (total_penalty resume_text)) 0 25, d) \<and>
        total_penalty resume_text =
          min (5 * int (occurrences tables_pattern resume_text)) 10 +
          min (2 * int (occurrences special_chars_pattern resume_text)) 10 +
          min (3 * int (occurrences excessive_caps_pattern resume_text)) 10 +
          length_penalty resume_text + bullet_penalty resume_text"
  using formatting_score_shape [of resume_text]
  by (simp add: spec_formatting_score_def total_penalty_def)

text \<open>
  The formula on a resume with one table row, ten special characters and one run of
  capitals: the penalties are 5, 10 (capped from 20), 3 and 5 for the length.
\<close>

theorem formatting_score_formula_witness:
  "\<exists>d. calculate_formatting_score ''| a | b |  ABCDEFGHIJKLMN ~ ~ ~ ~ ~ ~ ~ - Abc'' = Inr (2, d) \<and>
     occurrences tables_pattern ''| a | b |  ABCDEFGHIJKLMN ~ ~ ~ ~ ~ ~ ~ - Abc'' = 1 \<and>
     occurrences special_chars_pattern ''| a | b |  ABCDEFGHIJKLMN ~ ~ ~ ~ ~ ~ ~ - Abc'' = 10 \<and>
     occurrences excessive_caps_pattern ''| a | b |  ABCDEFGHIJKLMN ~ ~ ~ ~ ~ ~ ~ - Abc'' = 1 \<and>
     total_penalty ''| a | b |  ABCDEFGHIJKLMN ~ ~ ~ ~ ~ ~ ~ - Abc'' = 23"
proof -
  let ?t = "''| a | b |  ABCDEFGHIJKLMN ~ ~ ~ ~ ~ ~ ~ - Abc''"
  have 1: "occurrences tables_pattern ?t = 1" by code_simp
  have 2: "occurrences special_chars_pattern ?t = 10" by code_simp
  have 3: "occurrences excessive_caps_pattern ?t = 1" by code_simp
  have 4: "length_penalty ?t = 5" by code_simp
  have 5: "bullet_penalty ?t = 0" by code_simp
  have 6: "sections_found_in ?t = 0" by code_simp
  obtain d where r: "calculate_formatting_score ?t =
          Inr (clamp (25 + of_nat (sections_found_in ?t) / 5 * 10
                         - of_int (total_penalty ?t)) 0 25, d)"
    and tp: "total_penalty ?t =
          min (5 * int (occurrences tables_pattern ?t)) 10 +
          min (2 * int (occurrences special_chars_pattern ?t)) 10 +
          min (3 * int (occurrences excessive_caps_pattern ?t)) 10 +
          length_penalty ?t + bullet_penalty ?t"
    using formatting_score_formula [of ?t] by blast
  have tp23: "total_penalty ?t = 23" unfolding tp 1 2 3 4 5 by simp
  have "calculate_formatting_score ?t = Inr (2, d)"
    unfolding r tp23 6 by (simp add: clamp_def)
  then show ?thesis using 1 2 3 tp23 by blast
qed

subsection \<open>The skill analyser, the experience analyser and the aggregator\<close>

lemma categorize_keys:
  "map fst (categorize sl cs acc) = map fst acc @ map fst cs"
  by (induction cs arbitrary: acc) (auto simp: Let_def)

lemma category_count_ok:
  assumes "name \<in> set (map fst categories)"
  shows "\<exists>n. category_count (categorize sl categories []) name = Inr n"
proof -
  have "name \<in> fst ` set (categorize sl categories [])"
    using assms categorize_keys [of sl categories "[]"] by (metis append_Nil list.map(1) set_map)
  then obtain e where "map_of (categorize sl categories []) name = Some e"
    by (meson map_of_eq_None_iff not_Some_eq)
  then show ?thesis by (simp add: category_count_def)
qed

lemma skill_coverage_shape:
  "\<exists>sc d. calculate_skill_coverage sl jd = Inr (sc, d) \<and> 0 \<le> sc \<and> sc \<le> 25"
proof -
  let ?cats = "categorize (map lower sl) categories []"
  have p: "''programming'' \<in> set (map fst categories)" by (simp add: categories_def)
  have q: "''soft_skills'' \<in> set (map fst categories)" by (simp add: categories_def)
  obtain n1 where 1: "category_count ?cats ''programming'' = Inr n1"
    using category_count_ok [OF p] by blast
  obtain n2 where 2: "category_count ?cats ''soft_skills'' = Inr n2"
    using category_count_ok [OF q] by blast
  have len: "length categories = 6" by (simp add: categories_def)
  show ?thesis
    unfolding calculate_skill_coverage_def Let_def
    by (simp add: 1 2 len py_div_def)
qed

lemma skill_coverage_jd: "calculate_skill_coverage sl jd = calculate_skill_coverage sl None"
  by (simp add: calculate_skill_coverage_def)

lemma experience_quality_bounds:
  "0 \<le> fst (calculate_experience_quality rt) \<and> fst (calculate_experience_quality rt) \<le> 25"
  by (simp add: calculate_experience_quality_def Let_def metrics_score_def)


text \<open>
  What \<open>calculate_ats_score\<close> returns, in terms of what the four analysers return: it
  never raises.
\<close>

lemma ats_score_shape:
  "\<exists>k kd f fd sk sd r.
     calculate_keyword_score rt jd = Inr (k, kd) \<and>
     calculate_formatting_score rt = Inr (f, fd) \<and>
     calculate_skill_coverage sl jd = Inr (sk, sd) \<and>
     calculate_ats_score rt sl jd = Inr r \<and>
     total_score r =
       min (max (py_round (k + f + sk + fst (calculate_experience_quality rt))) 0) 100 \<and>
     breakdown r =
       \<lparr>keyword_score = py_round1 k, formatting_score = py_round1 f,
        skill_score = py_round1 sk,
        experience_score = py_round1 (fst (calculate_experience_quality rt))\<rparr> \<and>
     (grade r, grade_text r) = grade_of (total_score r) \<and>
     fd_suggestions (ad_formatting (details r)) = fd_suggestions fd \<and>
     suggestions r =
       take 10 (fd_suggestions fd @ recommendations sd @
                ed_suggestions (snd (calculate_experience_quality rt)))"
proof -
  obtain k kd where k: "calculate_keyword_score rt jd = Inr (k, kd)"
    using keyword_score_shape [of rt jd] by blast
  obtain f fd where f: "calculate_formatting_score rt = Inr (f, fd)"
    using formatting_score_shape [of rt] by blast
  obtain sk sd where s: "calculate_skill_coverage sl jd = Inr (sk, sd)"
    using skill_coverage_shape [of sl jd] by blast
  obtain e ed where e: "calculate_experience_quality rt = (e, ed)"
    by (cases "calculate_experience_quality rt")
  obtain g gt where g: "grade_of (min (max (py_round (k + f + sk + e)) 0) 100) = (g, gt)"
    by (cases "grade_of (min (max (py_round (k + f + sk + e)) 0) 100)")
  have "calculate_ats_score rt sl jd =
     Inr \<lparr>total_score = min (max (py_round (k + f + sk + e)) 0) 100, grade = g,
          grade_text = gt,
          breakdown = \<lparr>keyword_score = py_round1 k, formatting_score = py_round1 f,
                       skill_score = py_round1 sk, experience_score = py_round1 e\<rparr>,
          details = \<lparr>ad_keywords = kd, ad_formatting = fd, ad_skills = sd,
                     ad_experience = ed\<rparr>,
          suggestions = take 10 (fd_suggestions fd @ recommendations sd @ ed_suggestions ed),
          missing_keywords = take 15 (kd_missing_keywords kd)\<rparr>"
    unfolding calculate_ats_score_def
    by (simp only: k f s e g sum.case prod.case Let_def)
  then show ?thesis using k f s e g by simp
qed

text \<open>
  Claim C1. For every resume text, skill list and optional job description, the four
  analysers and \<open>calculate_ats_score\<close> return without raising; the keyword score lies
  between 0 and 50, the formatting, skill and experience scores between 0 and 25, both
  as the analysers return them and as the breakdown reports them, rounded to one
  decimal; the total score lies between 0 and 100.
\<close>

theorem ats_score_bounds:
  "\<exists>k kd f fd sk sd r.
     calculate_keyword_score resume_text job_description = Inr (k, kd) \<and>
     calculate_formatting_score resume_text = Inr (f, fd) \<and>
     calculate_skill_coverage skill_list job_description = Inr (sk, sd) \<and>
     0 \<le> k \<and> k \<le> 50 \<and> 0 \<le> f \<and> f \<le> 25 \<and> 0 \<le> sk \<and> sk \<le> 25 \<and>
     0 \<le> fst (calculate_experience_quality resume_text) \<and>
     fst (calculate_experience_quality resume_text) \<le> 25 \<and>
     calculate_ats_score resume_text skill_list job_description = Inr r \<and>
     0 \<le> keyword_score (breakdown r) \<and> keyword_score (breakdown r) \<le> 50 \<and>
     0 \<le> formatting_score (breakdown r) \<and> formatting_score (breakdown r) \<le> 25 \<and>
     0 \<le> skill_score (breakdown r) \<and> skill_score (breakdown r) \<le> 25 \<and>
     0 \<le> experience_score (breakdown r) \<and> experience_score (breakdown r) \<le> 25 \<and>
     0 \<le> total_score r \<and> total_score r \<le> 100"
proof -
  let ?e = "fst (calculate_experience_quality resume_text)"
  obtain k kd f fd sk sd r where
    k: "calculate_keyword_score resume_text job_description = Inr (k, kd)" and
    f: "calculate_formatting_score resume_text = Inr (f, fd)" and
    s: "calculate_skill_coverage skill_list job_description = Inr (sk, sd)" and
    r: "calculate_ats_score resume_text skill_list job_description = Inr r" and
    t: "total_score r = min (max (py_round (k + f + sk + ?e)) 0) 100" and
    b: "breakdown r =
       \<lparr>keyword_score = py_round1 k, formatting_score = py_round1 f,
        skill_score = py_round1 sk, experience_score = py_round1 ?e\<rparr>"
    using ats_score_shape [of resume_text job_description skill_list] by blast
  have kb: "of_int 0 \<le> k" "k \<le> of_int 50"
    using keyword_score_shape [of resume_text job_description] k by auto
  have fb: "of_int 0 \<le> f" "f \<le> of_int 25"
    using formatting_score_shape [of resume_text] f clamp_bounds
    by (auto simp: spec_formatting_score_def)
  have sb: "of_int 0 \<le> sk" "sk \<le> of_int 25"
    using skill_coverage_shape [of skill_list job_description] s by auto
  have eb: "of_int 0 \<le> ?e" "?e \<le> of_int 25"
    using experience_quality_bounds [of resume_text] by auto
  have tb: "0 \<le> total_score r" "total_score r \<le> 100" unfolding t by simp_all
  note rk = py_round1_bounds [OF kb]
  note rf = py_round1_bounds [OF fb]
  note rs = py_round1_bounds [OF sb]
  note re = py_round1_bounds [OF eb]
  have bb: "0 \<le> keyword_score (breakdown r) \<and> keyword_score (breakdown r) \<le> 50 \<and>
     0 \<le> formatting_score (breakdown r) \<and> formatting_score (breakdown r) \<le> 25 \<and>
     0 \<le> skill_score (breakdown r) \<and> skill_score (breakdown r) \<le> 25 \<and>
     0 \<le> experience_score (breakdown r) \<and> experience_score (breakdown r) \<le> 25"
    unfolding b using rk rf rs re by simp
  from k f s r kb fb sb eb tb bb show ?thesis by auto
qed

text \<open>
  The bounds on a resume with ten action verbs, five metrics and three result words, a
  job description that the resume covers and ten skills of all six categories: the
  four scores are 50, 8, 25 and 21, their sum 104 exceeds 100, and the total score
  stays within 0 and 100.
\<close>

theorem ats_score_bounds_witness:
  "\<exists>k kd f fd sk sd r.
     calculate_keyword_score
       (''led built created managed planned trained achieved delivered accomplished '' @
        ''reduced python 1% 2% 3% $4 $5'') (Some ''python'') = Inr (k, kd) \<and>
     calculate_formatting_score
       (''led built created managed planned trained achieved delivered accomplished '' @
        ''reduced python 1% 2% 3% $4 $5'') = Inr (f, fd) \<and>
     calculate_skill_coverage
       [''Python'', ''Java'', ''Pandas'', ''HTML'', ''CSS'', ''AWS'', ''Azure'', ''SQL'',
        ''MySQL'', ''Leadership''] (Some ''python'') = Inr (sk, sd) \<and>
     k = 50 \<and> f = 8 \<and> sk = 25 \<and>
     fst (calculate_experience_quality
       (''led built created managed planned trained achieved delivered accomplished '' @
        ''reduced python 1% 2% 3% $4 $5'')) = 21 \<and>
     100 < k + f + sk + 21 \<and>
     calculate_ats_score
       (''led built created managed planned trained achieved delivered accomplished '' @
        ''reduced python 1% 2% 3% $4 $5'')
       [''Python'', ''Java'', ''Pandas'', ''HTML'', ''CSS'', ''AWS'', ''Azure'', ''SQL'',
        ''MySQL'', ''Leadership''] (Some ''python'') = Inr r \<and>
     0 \<le> total_score r \<and> total_score r \<le> 100"
proof -
  let ?t = "''led built created managed planned trained achieved delivered accomplished '' @
        ''reduced python 1% 2% 3% $4 $5''"
  let ?s = "[''Python'', ''Java'', ''Pandas'', ''HTML'', ''CSS'', ''AWS'', ''Azure'', ''SQL'',
        ''MySQL'', ''Leadership'']"
  obtain k kd f fd sk sd r where
    k: "calculate_keyword_score ?t (Some ''python'') = Inr (k, kd)" and
    f: "calculate_formatting_score ?t = Inr (f, fd)" and
    s: "calculate_skill_coverage ?s (Some ''python'') = Inr (sk, sd)" and
    r: "calculate_ats_score ?t ?s (Some ''python'') = Inr r" and
    t: "0 \<le> total_score r" "total_score r \<le> 100"
    using ats_score_bounds [of ?t "Some ''python''" ?s] by blast
  have "map_sum id fst (calculate_keyword_score ?t (Some ''python'')) = Inr 50" by code_simp
  then have kv: "k = 50" unfolding k by simp
  have "map_sum id fst (calculate_formatting_score ?t) = Inr 8" by code_simp
  then have fv: "f = 8" unfolding f by simp
  have "map_sum id fst (calculate_skill_coverage ?s (Some ''python'')) = Inr 25" by code_simp
  then have sv: "sk = 25" unfolding s by simp
  have ev: "fst (calculate_experience_quality ?t) = 21" by code_simp
  have gt: "100 < k + f + sk + 21" unfolding kv fv sv by simp
  from k f s r t kv fv sv ev gt show ?thesis by blast
qed

text \<open>
  Claim C4. The grade and its text that \<open>calculate_ats_score\<close> returns are a function of
  the total score alone, \<open>grade_of\<close>: A from 85, B from 70, C from 55, D from 40, F
  below. Of two total scores the larger has the grade that is not lower in the order A
  above B above C above D above F, and the boundaries are exact: 85 gives A, 84 gives B.
\<close>

theorem grade_thresholds_monotone:
  "(\<exists>r. calculate_ats_score resume_text skill_list job_description = Inr r \<and>
        (grade r, grade_text r) = grade_of (total_score r)) \<and>
   (fst (grade_of sc) = ''A'' \<longleftrightarrow> 85 \<le> sc) \<and>
   (fst (grade_of sc) = ''B'' \<longleftrightarrow> 70 \<le> sc \<and> sc < 85) \<and>
   (fst (grade_of sc) = ''C'' \<longleftrightarrow> 55 \<le> sc \<and> sc < 70) \<and>
   (fst (grade_of sc) = ''D'' \<longleftrightarrow> 40 \<le> sc \<and> sc < 55) \<and>
   (fst (grade_of sc) = ''F'' \<longleftrightarrow> sc < 40) \<and>
   (s1 < s2 \<longrightarrow> grade_rank (fst (grade_of s1)) \<le> grade_rank (fst (grade_of s2))) \<and>
   fst (grade_of 85) = ''A'' \<and> fst (grade_of 84) = ''B''"
proof -
  have 1: "\<exists>r. calculate_ats_score resume_text skill_list job_description = Inr r \<and>
        (grade r, grade_text r) = grade_of (total_score r)"
    using ats_score_shape [of resume_text job_description skill_list] by blast
  have 2: "(fst (grade_of sc) = ''A'' \<longleftrightarrow> 85 \<le> sc) \<and>
   (fst (grade_of sc) = ''B'' \<longleftrightarrow> 70 \<le> sc \<and> sc < 85) \<and>
   (fst (grade_of sc) = ''C'' \<longleftrightarrow> 55 \<le> sc \<and> sc < 70) \<and>
   (fst (grade_of sc) = ''D'' \<longleftrightarrow> 40 \<le> sc \<and> sc < 55) \<and>
   (fst (grade_of sc) = ''F'' \<longleftrightarrow> sc < 40)"
    by (simp add: grade_of_def)
  have 3: "s1 < s2 \<longrightarrow> grade_rank (fst (grade_of s1)) \<le> grade_rank (fst (grade_of s2))"
    by (simp add: grade_of_def grade_rank_def)
  have 4: "fst (grade_of 85) = ''A'' \<and> fst (grade_of 84) = ''B''"
    by (simp add: grade_of_def)
  from 1 2 3 4 show ?thesis by blast
qed

text \<open>The scores 84 and 85, and the grade of the empty resume.\<close>

theorem grade_thresholds_monotone_witness:
  "(84::int) < 85 \<and>
   grade_rank (fst (grade_of 84)) \<le> grade_rank (fst (grade_of 85)) \<and>
   grade_rank (fst (grade_of 84)) = 3 \<and> grade_rank (fst (grade_of 85)) = 4 \<and>
   (\<exists>r. calculate_ats_score [] [] None = Inr r \<and> grade r = ''F'' \<and> total_score r = 33)"
proof -
  have g: "grade_rank (fst (grade_of 84)) = 3 \<and> grade_rank (fst (grade_of 85)) = 4"
    by (simp add: grade_of_def grade_rank_def)
  have t: "map_sum id total_score (calculate_ats_score [] [] None) = Inr 33" by code_simp
  from grade_thresholds_monotone [of "[]" "[]" None 33 84 85]
  obtain r where r: "calculate_ats_score [] [] None = Inr r"
    and gr: "(grade r, grade_text r) = grade_of (total_score r)"
    and m: "(84::int) < 85 \<longrightarrow> grade_rank (fst (grade_of 84)) \<le> grade_rank (fst (grade_of 85))"
    by blast
  have ts: "total_score r = 33" using t r by simp
  have "grade r = ''F''" using gr unfolding ts by (simp add: grade_of_def)
  with r ts g m show ?thesis by auto
qed

lemma member_nil: "List.member [] = (\<lambda>x. False)"
  by (simp add: fun_eq_iff)

lemma keyword_score_empty_resume:
  "\<exists>d. calculate_keyword_score [] jd = Inr (if truthy jd then 0 else 15, d)"
proof -
  let ?d0 = "\<lparr>action_verbs_found = [], action_verbs_missing = [],
               keyword_density = 0, kd_matched_keywords = [],
               kd_missing_keywords = []\<rparr>"
  have v: "action_verbs_found (check_action_verbs [] ACTION_VERBS ?d0) = []"
    by code_simp
  have w: "re_findall False word3 [] = []" by code_simp
  have sp: "split [] = []" by (simp add: split_def)
  have m: "\<exists>d'. match_job_description [] jd (check_action_verbs [] ACTION_VERBS ?d0) =
             Inr (if truthy jd then 0 else 15, d')"
    by (simp add: match_job_description_def Let_def w py_div_def member_nil)
  then obtain d' where m': "match_job_description [] jd (check_action_verbs [] ACTION_VERBS ?d0) =
             Inr (if truthy jd then 0 else 15, d')" by blast
  have dn: "density [] d' = Inr d'" by (simp add: density_def sp)
  show ?thesis
    unfolding calculate_keyword_score_def Let_def lower_def list.map
    by (simp only: m' dn v sum.case prod.case) simp
qed

text \<open>
  Claim C6. On the empty resume and the empty skill list \<open>calculate_ats_score\<close> returns
  a result and does not raise, whatever the job description. In the result the skill
  score is 0, the formatting suggestions are the five suggestions to add a section, the
  suggestion for a short resume and the suggestion to use bullet points, the total
  score is 33 without a job description and 18 with one, so it is not negative, and the
  grade is F.
\<close>

theorem ats_score_empty_input:
  "\<exists>r. calculate_ats_score [] [] job_description = Inr r \<and>
     skill_score (breakdown r) = 0 \<and>
     fd_suggestions (ad_formatting (details r)) =
       [''Add a '' @ [CHR 0x27] @ ''Experience'' @ [CHR 0x27] @ '' section'',
        ''Add a '' @ [CHR 0x27] @ ''Education'' @ [CHR 0x27] @ '' section'',
        ''Add a '' @ [CHR 0x27] @ ''Skills'' @ [CHR 0x27] @ '' section'',
        ''Add a '' @ [CHR 0x27] @ ''Summary'' @ [CHR 0x27] @ '' section'',
        ''Add a '' @ [CHR 0x27] @ ''Objective'' @ [CHR 0x27] @ '' section'',
        ''Resume appears too short. Add more details about your experience.'',
        ''Use bullet points to list achievements and responsibilities''] \<and>
     total_score r = (if truthy job_description then 18 else 33) \<and>
     0 \<le> total_score r \<and> grade r = ''F''"
proof -
  let ?e = "fst (calculate_experience_quality [])"
  obtain k kd f fd sk sd r where
    k: "calculate_keyword_score [] job_description = Inr (k, kd)" and
    f: "calculate_formatting_score [] = Inr (f, fd)" and
    s: "calculate_skill_coverage [] job_description = Inr (sk, sd)" and
    r: "calculate_ats_score [] [] job_description = Inr r" and
    t: "total_score r = min (max (py_round (k + f + sk + ?e)) 0) 100" and
    b: "breakdown r =
       \<lparr>keyword_score = py_round1 k, formatting_score = py_round1 f,
        skill_score = py_round1 sk, experience_score = py_round1 ?e\<rparr>" and
    g: "(grade r, grade_text r) = grade_of (total_score r)" and
    fs: "fd_suggestions (ad_formatting (details r)) = fd_suggestions fd"
    using ats_score_shape [of "[]" job_description "[]"] by blast
  have kv: "k = (if truthy job_description then 0 else 15)"
    using keyword_score_empty_resume [of job_description] k by auto
  have "map_sum id fst (calculate_formatting_score []) = Inr 18" by code_simp
  then have fv: "f = 18" using f by simp
  have "map_sum id (fd_suggestions \<circ> snd) (calculate_formatting_score []) =
      Inr [''Add a '' @ [CHR 0x27] @ ''Experience'' @ [CHR 0x27] @ '' section'',
        ''Add a '' @ [CHR 0x27] @ ''Education'' @ [CHR 0x27] @ '' section'',
        ''Add a '' @ [CHR 0x27] @ ''Skills'' @ [CHR 0x27] @ '' section'',
        ''Add a '' @ [CHR 0x27] @ ''Summary'' @ [CHR 0x27] @ '' section'',
        ''Add a '' @ [CHR 0x27] @ ''Objective'' @ [CHR 0x27] @ '' section'',
        ''Resume appears too short. Add more details about your experience.'',
        ''Use bullet points to list achievements and responsibilities'']"
    by code_simp
  then have sv: "fd_suggestions fd =
       [''Add a '' @ [CHR 0x27] @ ''Experience'' @ [CHR 0x27] @ '' section'',
        ''Add a '' @ [CHR 0x27] @ ''Education'' @ [CHR 0x27] @ '' section'',
        ''Add a '' @ [CHR 0x27] @ ''Skills'' @ [CHR 0x27] @ '' section'',
        ''Add a '' @ [CHR 0x27] @ ''Summary'' @ [CHR 0x27] @ '' section'',
        ''Add a '' @ [CHR 0x27] @ ''Objective'' @ [CHR 0x27] @ '' section'',
        ''Resume appears too short. Add more details about your experience.'',
        ''Use bullet points to list achievements and responsibilities'']"
    unfolding f by simp
  have "map_sum id fst (calculate_skill_coverage [] None) = Inr 0" by code_simp
  then have skv: "sk = 0" using s skill_coverage_jd [of "[]" job_description] by simp
  have ev: "?e = 0" by code_simp
  have r18: "py_round 18 = 18" by code_simp
  have r33: "py_round 33 = 33" by code_simp
  have r0: "py_round1 0 = 0" by code_simp
  have tv: "total_score r = (if truthy job_description then 18 else 33)"
    unfolding t kv fv skv ev by (simp add: r18 r33)
  have gv: "grade r = ''F''"
    using g unfolding tv by (cases "truthy job_description") (simp_all add: grade_of_def)
  have ss: "skill_score (breakdown r) = 0" unfolding b skv by (simp add: r0)
  from r ss fs sv tv gv show ?thesis by auto
qed

text \<open>
  Claim C10. \<open>calculate_ats_score\<close> rounds the sum of the four scores as the analysers
  return them, while each field of the breakdown is that score rounded to one decimal.
  So the total score can differ from the rounded sum of the reported values: for the
  resume \<open>python java ruby\<close>, the skills python and java and the job description
  \<open>python java ruby rust\<close> the scores are 18.75, 18, 4.666... and 0, the total score is
  41, the reported values 18.8, 18, 4.7 and 0 add up to 41.5, which rounds to 42.
\<close>

theorem total_from_unrounded_scores:
  "(\<exists>k kd f fd sk sd r.
     calculate_keyword_score resume_text job_description = Inr (k, kd) \<and>
     calculate_formatting_score resume_text = Inr (f, fd) \<and>
     calculate_skill_coverage skill_list job_description = Inr (sk, sd) \<and>
     calculate_ats_score resume_text skill_list job_description = Inr r \<and>
     total_score r =
       min (max (py_round (k + f + sk + fst (calculate_experience_quality resume_text))) 0) 100 \<and>
     keyword_score (breakdown r) = py_round1 k \<and>
     formatting_score (breakdown r) = py_round1 f \<and>
     skill_score (breakdown r) = py_round1 sk \<and>
     experience_score (breakdown r) =
       py_round1 (fst (calculate_experience_quality resume_text))) \<and>
   (\<exists>r. calculate_ats_score ''python java ruby'' [''python'', ''java'']
           (Some ''python java ruby rust'') = Inr r \<and>
        total_score r = 41 \<and> reported_sum r = 83 / 2 \<and> py_round (reported_sum r) = 42 \<and>
        total_score r \<noteq> py_round (reported_sum r))"
proof -
  have 1: "\<exists>k kd f fd sk sd r.
     calculate_keyword_score resume_text job_description = Inr (k, kd) \<and>
     calculate_formatting_score resume_text = Inr (f, fd) \<and>
     calculate_skill_coverage skill_list job_description = Inr (sk, sd) \<and>
     calculate_ats_score resume_text skill_list job_description = Inr r \<and>
     total_score r =
       min (max (py_round (k + f + sk + fst (calculate_experience_quality resume_text))) 0) 100 \<and>
     keyword_score (breakdown r) = py_round1 k \<and>
     formatting_score (breakdown r) = py_round1 f \<and>
     skill_score (breakdown r) = py_round1 sk \<and>
     experience_score (breakdown r) =
       py_round1 (fst (calculate_experience_quality resume_text))"
    using ats_score_shape [of resume_text job_description skill_list] by force
  let ?c = "calculate_ats_score ''python java ruby'' [''python'', ''java'']
           (Some ''python java ruby rust'')"
  obtain r where r: "?c = Inr r"
    using ats_score_shape [of "''python java ruby''" "Some ''python java ruby rust''"
        "[''python'', ''java'']"] by blast
  have "map_sum id total_score ?c = Inr 41" by code_simp
  then have a: "total_score r = 41" unfolding r by simp
  have "map_sum id reported_sum ?c = Inr (83 / 2)" by code_simp
  then have b: "reported_sum r = 83 / 2" unfolding r by simp
  have c: "py_round (83 / 2) = 42" by code_simp
  have d: "py_round (reported_sum r) = 42" unfolding b by (rule c)
  have e: "total_score r \<noteq> py_round (reported_sum r)" unfolding a d by simp
  from r a b d e have 2: "\<exists>r. ?c = Inr r \<and>
        total_score r = 41 \<and> reported_sum r = 83 / 2 \<and> py_round (reported_sum r) = 42 \<and>
        total_score r \<noteq> py_round (reported_sum r)" by blast
  from 1 2 show ?thesis by (rule conjI)
qed

subsection \<open>The metrics of the experience analyser\<close>

lemma collect_metrics_found:
  "metrics_found (collect_metrics rt ps d) =
     metrics_found d @
     concat (map (\<lambda>(pattern, metric_type).
                    map (\<lambda>m. (m, metric_type)) (take 3 (re_findall True pattern rt))) ps)"
  by (induction ps arbitrary: d) (auto simp: Let_def)

lemma collect_metrics_achievements:
  "achievements (collect_metrics rt ps d) =
     achievements d + sum_list (map (\<lambda>(pattern, metric_type). length (re_findall True pattern rt)) ps)"
  by (induction ps arbitrary: d) (auto simp: Let_def)

lemma samples_length:
  "length (concat (map (\<lambda>(pattern, metric_type).
                    map (\<lambda>m. (m, metric_type)) (take 3 (g pattern))) ps)) \<le> 3 * length ps"
  by (induction ps) auto

lemma samples_le_matches:
  "length (concat (map (\<lambda>(pattern, metric_type).
                    map (\<lambda>m. (m, metric_type)) (take 3 (g pattern))) ps))
     \<le> sum_list (map (\<lambda>(pattern, metric_type). length (g pattern)) ps)"
  by (induction ps) auto

text \<open>
  Claim C2, amended. For every resume text, the metrics sub-score of the experience
  analyser is \<open>min(n / 5, 1) * 15\<close> where \<open>n\<close> is the length of the sample list
  \<open>metrics_found\<close>, which holds at most three matches of each of the seven patterns, so
  at most 21, and never more entries than the count \<open>achievements\<close> of all matches. The
  score of the analyser is this sub-score plus the result bonus, capped at 25.
\<close>

theorem metrics_score_from_samples:
  "metrics_score (find_metrics resume_text) =
     min (of_nat (length (metrics_found (find_metrics resume_text))) / 5) 1 * 15 \<and>
   metrics_found (find_metrics resume_text) =
     concat (map (\<lambda>(pattern, metric_type).
                    map (\<lambda>m. (m, metric_type)) (take 3 (re_findall True pattern resume_text)))
               metric_patterns) \<and>
   achievements (find_metrics resume_text) =
     sum_list (map (\<lambda>(pattern, metric_type). length (re_findall True pattern resume_text))
                 metric_patterns) \<and>
   length metric_patterns = 7 \<and>
   length (metrics_found (find_metrics resume_text)) \<le> 21 \<and>
   length (metrics_found (find_metrics resume_text)) \<le> achievements (find_metrics resume_text) \<and>
   fst (calculate_experience_quality resume_text) =
     min (metrics_score (find_metrics resume_text) +
          min (of_nat (sum_list (map (\<lambda>p. length (re_findall True p resume_text))
                                   result_patterns)) / 5) 1 * 10) 25"
proof -
  have 1: "metrics_found (find_metrics resume_text) =
     concat (map (\<lambda>(pattern, metric_type).
                    map (\<lambda>m. (m, metric_type)) (take 3 (re_findall True pattern resume_text)))
               metric_patterns)"
    by (simp add: find_metrics_def collect_metrics_found)
  have 2: "achievements (find_metrics resume_text) =
     sum_list (map (\<lambda>(pattern, metric_type). length (re_findall True pattern resume_text))
                 metric_patterns)"
    by (simp add: find_metrics_def collect_metrics_achievements)
  have 3: "length metric_patterns = 7" by (simp add: metric_patterns_def)
  have 4: "length (metrics_found (find_metrics resume_text)) \<le> 21"
    unfolding 1
    using samples_length [of "\<lambda>p. re_findall True p resume_text" metric_patterns]
    by (simp add: 3)
  have 5: "length (metrics_found (find_metrics resume_text))
             \<le> achievements (find_metrics resume_text)"
    unfolding 1 2
    by (rule samples_le_matches [of "\<lambda>p. re_findall True p resume_text" metric_patterns])
  have 6: "fst (calculate_experience_quality resume_text) =
     min (metrics_score (find_metrics resume_text) +
          min (of_nat (sum_list (map (\<lambda>p. length (re_findall True p resume_text))
                                   result_patterns)) / 5) 1 * 10) 25"
    by (simp add: calculate_experience_quality_def Let_def)
  have 0: "metrics_score (find_metrics resume_text) =
     min (of_nat (length (metrics_found (find_metrics resume_text))) / 5) 1 * 15"
    by (simp add: metrics_score_def)
  from 0 1 2 3 4 5 6 show ?thesis by blast
qed

text \<open>
  Claim C2 as stated fails: the resume \<open>10% 20% 30% 40% 50%\<close> has five matches, all of
  the percentage pattern, of which three are sampled; the metrics sub-score is
  \<open>3 / 5 * 15 = 9\<close>, not \<open>min(5 / 5, 1) * 15 = 15\<close>.
\<close>

theorem metrics_score_counterexample:
  "achievements (find_metrics ''10% 20% 30% 40% 50%'') = 5 \<and>
   length (metrics_found (find_metrics ''10% 20% 30% 40% 50%'')) = 3 \<and>
   metrics_score (find_metrics ''10% 20% 30% 40% 50%'') = 9 \<and>
   fst (calculate_experience_quality ''10% 20% 30% 40% 50%'') = 9 \<and>
   metrics_score (find_metrics ''10% 20% 30% 40% 50%'') \<noteq>
     min (of_nat (achievements (find_metrics ''10% 20% 30% 40% 50%'')) / 5) 1 * 15"
  by code_simp

subsection \<open>The job matcher\<close>

lemma match_keywords_filter:
  "match_keywords rl ks (a, b) =
     (a @ filter (\<lambda>k. str_in k rl) ks, b @ filter (\<lambda>k. \<not> str_in k rl) ks)"
  by (induction ks arbitrary: a b) auto

lemma find_jd_skills_filter:
  "find_jd_skills jl ss acc = acc @ filter (\<lambda>s. str_in s jl) ss"
  by (induction ss arbitrary: acc) auto

lemma skill_match_code:
  "(if jd_skills_of jd \<noteq> []
    then (case py_div (of_nat (length (matched_skills_of rs jd)))
                      (of_nat (max (length (jd_skills_of jd)) 1)) of
            Inl e \<Rightarrow> Inl e
          | Inr sq \<Rightarrow> Inr (sq * 100))
    else Inr 50) = Inr (skill_match_pct rs jd)"
  by (cases "jd_skills_of jd") (simp_all add: skill_match_pct_def py_div_def)

lemma keyword_match_code:
  "py_div (of_nat (length (matched_keywords_of rt jd)))
          (of_nat (max (length (important_keywords_of jd)) 1)) =
     Inr (keyword_match_pct rt jd / 100)"
  by (simp add: py_div_def keyword_match_pct_def)

lemma job_match_unfolded:
  "calculate_job_match rt rs jd =
     (case py_div (of_nat (length (matched_keywords_of rt jd)))
                  (of_nat (max (length (important_keywords_of jd)) 1)) of
        Inl e \<Rightarrow> Inl e
      | Inr kq \<Rightarrow>
          (case (if jd_skills_of jd \<noteq> []
                 then (case py_div (of_nat (length (matched_skills_of rs jd)))
                                   (of_nat (max (length (jd_skills_of jd)) 1)) of
                         Inl e \<Rightarrow> Inl e
                       | Inr sq \<Rightarrow> Inr (sq * 100))
                 else Inr 50) of
             Inl e \<Rightarrow> Inl e
           | Inr skill_m \<Rightarrow>
               (case match_tier (kq * 100 * (6 / 10) + skill_m * (4 / 10)) of
                  (level, advice) \<Rightarrow>
                    Inr \<lparr>overall_match = py_round1 (kq * 100 * (6 / 10) + skill_m * (4 / 10)),
                         match_level = level,
                         keyword_match = py_round1 (kq * 100),
                         skill_match = py_round1 skill_m,
                         mr_matched_keywords = take 15 (matched_keywords_of rt jd),
                         mr_missing_keywords =
                           take 15 (filter (\<lambda>k. \<not> str_in k (lower rt))
                                      (important_keywords_of jd)),
                         matched_skills = matched_skills_of rs jd,
                         missing_skills =
                           take 10 (filter (\<lambda>s. \<not> list_ex (\<lambda>rs. str_in s rs) (map lower rs))
                                      (jd_skills_of jd)),
                         recommendation = advice\<rparr>)))"
  unfolding calculate_job_match_def Let_def match_keywords_filter find_jd_skills_filter
    append_Nil prod.case important_keywords_of_def matched_keywords_of_def
    jd_skills_of_def matched_skills_of_def
  by (rule refl)

text \<open>
  What \<open>calculate_job_match\<close> returns, in terms of the two match percentages: it never
  raises.
\<close>

lemma job_match_shape:
  "\<exists>r. calculate_job_match rt rs jd = Inr r \<and>
     overall_match r =
       py_round1 (keyword_match_pct rt jd * (6 / 10) + skill_match_pct rs jd * (4 / 10)) \<and>
     (match_level r, recommendation r) =
       match_tier (keyword_match_pct rt jd * (6 / 10) + skill_match_pct rs jd * (4 / 10)) \<and>
     keyword_match r = py_round1 (keyword_match_pct rt jd) \<and>
     skill_match r = py_round1 (skill_match_pct rs jd) \<and>
     matched_skills r = matched_skills_of rs jd \<and>
     mr_matched_keywords r = take 15 (matched_keywords_of rt jd)"
proof -
  let ?x = "keyword_match_pct rt jd * (6 / 10) + skill_match_pct rs jd * (4 / 10)"
  obtain lv adv where tier: "match_tier ?x = (lv, adv)" by (cases "match_tier ?x")
  have c: "keyword_match_pct rt jd / 100 * 100 = keyword_match_pct rt jd" by simp
  have "calculate_job_match rt rs jd =
     Inr \<lparr>overall_match = py_round1 ?x, match_level = lv,
          keyword_match = py_round1 (keyword_match_pct rt jd),
          skill_match = py_round1 (skill_match_pct rs jd),
          mr_matched_keywords = take 15 (matched_keywords_of rt jd),
          mr_missing_keywords =
            take 15 (filter (\<lambda>k. \<not> str_in k (lower rt)) (important_keywords_of jd)),
          matched_skills = matched_skills_of rs jd,
          missing_skills =
            take 10 (filter (\<lambda>s. \<not> list_ex (\<lambda>rs. str_in s rs) (map lower rs))
                       (jd_skills_of jd)),
          recommendation = adv\<rparr>"
    by (simp only: job_match_unfolded keyword_match_code skill_match_code sum.case c tier
          prod.case)
  then show ?thesis using tier by simp
qed



text \<open>
  The thresholds see the weighted sum, not the value reported: with 6 of 7 keywords and
  10 of 17 skills matched the sum is 74.957..., reported as 75.0, and the level is
  Moderate Match.
\<close>

lemma tier_of_unrounded_sum:
  "py_round1 (100 * 6 / 7 * (6 / 10) + 100 * 10 / 17 * (4 / 10)) = 75 \<and>
   fst (match_tier (100 * 6 / 7 * (6 / 10) + 100 * 10 / 17 * (4 / 10))) = ''Moderate Match''"
  by code_simp

text \<open>
  Claim C8. \<open>calculate_job_match\<close> never divides by zero: for every input it returns a
  result. Its keyword match is the number of matched keywords over
  \<open>max(|important_keywords|, 1)\<close>, times 100; its skill match is the constant 50 when
  no skill indicator occurs in the job description, and
  \<open>|matched_skills| / |jd_skills| * 100\<close> otherwise; both are reported rounded to one
  decimal. For the empty job description the keyword match is 0 and the skill match
  is 50.
\<close>

theorem job_match_no_division_by_zero:
  "\<exists>r. calculate_job_match resume_text resume_skills job_description = Inr r \<and>
     keyword_match r = py_round1 (keyword_match_pct resume_text job_description) \<and>
     skill_match r = py_round1 (skill_match_pct resume_skills job_description) \<and>
     keyword_match_pct resume_text job_description =
       of_nat (length (matched_keywords_of resume_text job_description)) /
       of_nat (max (length (important_keywords_of job_description)) 1) * 100 \<and>
     max (length (important_keywords_of job_description)) 1 \<noteq> 0 \<and>
     skill_match_pct resume_skills job_description =
       (if jd_skills_of job_description = [] then 50
        else of_nat (length (matched_skills_of resume_skills job_description)) /
             of_nat (length (jd_skills_of job_description)) * 100) \<and>
     matched_skills r = matched_skills_of resume_skills job_description \<and>
     (\<exists>r0. calculate_job_match resume_text resume_skills [] = Inr r0 \<and>
        keyword_match r0 = 0 \<and> skill_match r0 = 50)"
proof -
  obtain r where r: "calculate_job_match resume_text resume_skills job_description = Inr r"
    and k: "keyword_match r = py_round1 (keyword_match_pct resume_text job_description)"
    and s: "skill_match r = py_round1 (skill_match_pct resume_skills job_description)"
    and m: "matched_skills r = matched_skills_of resume_skills job_description"
    using job_match_shape [of resume_text resume_skills job_description] by blast
  obtain r0 where r0: "calculate_job_match resume_text resume_skills [] = Inr r0"
    and k0: "keyword_match r0 = py_round1 (keyword_match_pct resume_text [])"
    and s0: "skill_match r0 = py_round1 (skill_match_pct resume_skills [])"
    using job_match_shape [of resume_text resume_skills "[]"] by blast
  have ik: "important_keywords_of [] = []" by code_simp
  have js: "jd_skills_of [] = []" by code_simp
  have kz: "keyword_match_pct resume_text [] = 0"
    by (simp add: keyword_match_pct_def matched_keywords_of_def ik)
  have sz: "skill_match_pct resume_skills [] = 50"
    by (simp add: skill_match_pct_def js)
  have r0v: "py_round1 0 = 0" by code_simp
  have r50: "py_round1 50 = 50" by code_simp
  have e: "keyword_match r0 = 0 \<and> skill_match r0 = 50"
    unfolding k0 s0 kz sz using r0v r50 by simp
  have d: "keyword_match_pct resume_text job_description =
       of_nat (length (matched_keywords_of resume_text job_description)) /
       of_nat (max (length (important_keywords_of job_description)) 1) * 100"
    by (simp add: keyword_match_pct_def)
  have n: "max (length (important_keywords_of job_description)) 1 \<noteq> 0" by simp
  have sd: "skill_match_pct resume_skills job_description =
       (if jd_skills_of job_description = [] then 50
        else of_nat (length (matched_skills_of resume_skills job_description)) /
             of_nat (length (jd_skills_of job_description)) * 100)"
    by (simp add: skill_match_pct_def)
  from r k s d n sd m r0 e show ?thesis by blast
qed

end
